theory Spec2Isabelle
  imports Complex_Main
begin

section \<open>Voro++ container.hh: walls, the container and cell initialisation\<close>

text \<open>
  A shallow embedding of \<^verbatim>\<open>src/container.hh\<close> of Voro++. Conventions used throughout:
  \<^item> a C++ \<^verbatim>\<open>double\<close> is a \<^typ>\<open>real\<close> where the theorems speak about the formulas
    the code evaluates, not about their rounding; a quotient means something only where
    the divisor is not \<open>0\<close> (there the C++ value is an infinity or not a number). The
    bounds on the multiplier of the weighted container depend on the rounding, and are
    proved on a model of the double arithmetic with rounding and overflow;
  \<^item> a C++ \<^verbatim>\<open>int\<close> is an \<^typ>\<open>int\<close>; in the box-index arithmetic (the field
    \<^verbatim>\<open>cuijk\<close> and \<^verbatim>\<open>region_index\<close>) every operation is followed by \<open>int32\<close>, the
    wrap-around of two's complement (signed overflow is undefined in C++; the compiled
    code wraps);
  \<^item> an array is a list, read with \<open>!\<close> at \<open>nat i\<close>; a read outside the array is
    undefined in C++, and the theorems that depend on a read assume the index is in range;
  \<^item> a member function that writes fields of its object takes the object and returns
    the updated one; a reference parameter that is written is returned as well.
\<close>

subsection \<open>Machine integers\<close>

text \<open>
  \<open>int32 v\<close> is the value a 32-bit \<^verbatim>\<open>int\<close> holds after an operation whose exact result
  is \<open>v\<close>; \<open>in_int32 v\<close> says that \<open>v\<close> is such a value, so that nothing wraps.
\<close>

definition int32 :: "int \<Rightarrow> int" where
  "int32 v = (v + 2 ^ 31) mod 2 ^ 32 - 2 ^ 31"

definition in_int32 :: "int \<Rightarrow> bool" where
  "in_int32 v \<longleftrightarrow> - (2 ^ 31) \<le> v \<and> v < 2 ^ 31"

subsection \<open>class wall\<close>

text \<open>
  \<^verbatim>\<open>class wall\<close> is pure virtual: \<^verbatim>\<open>point_inside(x,y,z)\<close> is a test and
  \<^verbatim>\<open>cut_cell(c,x,y,z)\<close> cuts the cell \<^verbatim>\<open>c\<close> in place and returns whether the cell
  survives. A wall object is the pair of its two member functions; the two overloads of
  \<^verbatim>\<open>cut_cell\<close> (for \<^verbatim>\<open>voronoicell\<close> and \<^verbatim>\<open>voronoicell_neighbor\<close>) are the
  instances of the cell type \<open>'c\<close>.
\<close>

record 'c wall =
  point_inside :: "real \<Rightarrow> real \<Rightarrow> real \<Rightarrow> bool"
  cut_cell :: "'c \<Rightarrow> real \<Rightarrow> real \<Rightarrow> real \<Rightarrow> bool \<times> 'c"

subsection \<open>class wall\_list\<close>

text \<open>
  The array \<^verbatim>\<open>walls[0 .. wep)\<close> is the list of the walls. \<^verbatim>\<open>add_wall\<close> stores
  \<^verbatim>\<open>w\<close> at \<^verbatim>\<open>*wep\<close> and advances \<^verbatim>\<open>wep\<close>: it appends.
\<close>

definition add_wall :: "'c wall list \<Rightarrow> 'c wall \<Rightarrow> 'c wall list" where
  "add_wall ws w = ws @ [w]"

text \<open>
  \<^verbatim>\<open>for(wall **wp=walls;wp<wep;wp++) if(!((*wp)->point_inside(x,y,z))) return false;
  return true;\<close>
\<close>

fun point_inside_walls :: "'c wall list \<Rightarrow> real \<Rightarrow> real \<Rightarrow> real \<Rightarrow> bool" where
  "point_inside_walls [] x y z = True"
| "point_inside_walls (w # ws) x y z =
     (if \<not> point_inside w x y z then False else point_inside_walls ws x y z)"

text \<open>
  \<^verbatim>\<open>for(wall **wp=walls;wp<wep;wp++) if(!((*wp)->cut_cell(c,x,y,z))) return false;
  return true;\<close>
  The cell is passed by reference, so the result carries the cell as the walls left it.
\<close>

fun apply_walls :: "'c wall list \<Rightarrow> 'c \<Rightarrow> real \<Rightarrow> real \<Rightarrow> real \<Rightarrow> bool \<times> 'c" where
  "apply_walls [] c x y z = (True, c)"
| "apply_walls (w # ws) c x y z =
     (case cut_cell w c x y z of
        (ok, c') \<Rightarrow> if \<not> ok then (False, c') else apply_walls ws c' x y z)"

text \<open>
  Vocabulary for the statements about \<open>apply_walls\<close>: \<open>cuts ws c x y z\<close> is the cell after
  the \<^verbatim>\<open>cut_cell\<close> of every wall of \<open>ws\<close> has been invoked on it, one after the other
  in list order; \<open>survives_at ws c x y z n\<close> is the answer of wall number \<open>n\<close> when it is
  invoked on the cell left by the walls before it.
\<close>

definition cuts :: "'c wall list \<Rightarrow> 'c \<Rightarrow> real \<Rightarrow> real \<Rightarrow> real \<Rightarrow> 'c" where
  "cuts ws c x y z = foldl (\<lambda>c' w. snd (cut_cell w c' x y z)) c ws"

definition survives_at :: "'c wall list \<Rightarrow> 'c \<Rightarrow> real \<Rightarrow> real \<Rightarrow> real \<Rightarrow> nat \<Rightarrow> bool" where
  "survives_at ws c x y z n = fst (cut_cell (ws ! n) (cuts (take n ws) c x y z) x y z)"

subsection \<open>class container\_base\<close>

text \<open>
  \<^verbatim>\<open>container_base\<close> derives from \<^verbatim>\<open>voropp_base\<close> and \<^verbatim>\<open>wall_list\<close>. Of
  \<^verbatim>\<open>voropp_base\<close> (declared in \<^verbatim>\<open>v_base.hh\<close>) the header uses the grid sizes
  \<^verbatim>\<open>nx, ny, nz\<close> and the box side lengths \<^verbatim>\<open>boxx, boxy, boxz\<close>; the inherited
  wall array is the field \<open>walls\<close>. The fields \<^verbatim>\<open>by\<close> and \<^verbatim>\<open>id\<close> are written
  \<open>by'\<close> and \<open>id'\<close>. The protected fields \<^verbatim>\<open>cux .. cuijk\<close> hold the particle whose
  cell is being computed.
\<close>

record 'c container_base =
  nx :: int
  ny :: int
  nz :: int
  boxx :: real
  boxy :: real
  boxz :: real
  walls :: "'c wall list"
  ax :: real
  bx :: real
  ay :: real
  by' :: real
  az :: real
  bz :: real
  xperiodic :: bool
  yperiodic :: bool
  zperiodic :: bool
  id' :: "int list list"
  p :: "real list list"
  co :: "int list"
  mem :: "int list"
  ps :: int
  cux :: real
  cuy :: real
  cuz :: real
  cui :: int
  cuj :: int
  cuk :: int
  cuijk :: int

text \<open>
  The loop object \<^verbatim>\<open>vl\<close> of \<^verbatim>\<open>v_loops.hh\<close>: the header reads its current box
  \<^verbatim>\<open>vl.i, vl.j, vl.k\<close>, the linear index \<^verbatim>\<open>vl.ijk\<close> of that box and the slot
  \<^verbatim>\<open>vl.q\<close> of the particle in it.
\<close>

record v_loop =
  vl_i :: int
  vl_j :: int
  vl_k :: int
  vl_ijk :: int
  vl_q :: int

text \<open>
  \<^verbatim>\<open>initialize_voronoicell(c,vl,sti,stj,stk)\<close>. The cell's \<^verbatim>\<open>c.init\<close> is declared in
  \<^verbatim>\<open>cell.hh\<close>, so it is the parameter \<open>c_init\<close>. The result is the returned flag, the
  container with its scratch fields written, the cell, and the three reference parameters
  \<^verbatim>\<open>sti, stj, stk\<close>. On the early \<^verbatim>\<open>return false\<close> the field \<^verbatim>\<open>cuijk\<close> is not
  written.
\<close>

definition initialize_voronoicell ::
  "('c \<Rightarrow> real \<Rightarrow> real \<Rightarrow> real \<Rightarrow> real \<Rightarrow> real \<Rightarrow> real \<Rightarrow> 'c) \<Rightarrow>
   ('c, 'm) container_base_scheme \<Rightarrow> 'c \<Rightarrow> v_loop \<Rightarrow>
   bool \<times> ('c, 'm) container_base_scheme \<times> 'c \<times> int \<times> int \<times> int" where
  "initialize_voronoicell c_init con c vl =
     (let pp = p con ! nat (vl_ijk vl);
          off = nat (ps con * vl_q vl);
          con1 = con\<lparr>cux := pp ! off, cuy := pp ! (off + 1), cuz := pp ! (off + 2)\<rparr>;
          con2 = con1\<lparr>cui := vl_i vl, cuj := vl_j vl, cuk := vl_k vl\<rparr>;
          (x1, x2, sti) =
            (if xperiodic con2
             then (- (0.5 * (bx con2 - ax con2)), 0.5 * (bx con2 - ax con2), nx con2)
             else (ax con2 - cux con2, bx con2 - cux con2, cui con2));
          (y1, y2, stj) =
            (if yperiodic con2
             then (- (0.5 * (by' con2 - ay con2)), 0.5 * (by' con2 - ay con2), ny con2)
             else (ay con2 - cuy con2, by' con2 - cuy con2, cuj con2));
          (z1, z2, stk) =
            (if zperiodic con2
             then (- (0.5 * (bz con2 - az con2)), 0.5 * (bz con2 - az con2), nz con2)
             else (az con2 - cuz con2, bz con2 - cuz con2, cuk con2));
          (ok, c1) = apply_walls (walls con2) (c_init c x1 x2 y1 y2 z1 z2)
                       (cux con2) (cuy con2) (cuz con2)
      in if \<not> ok then (False, con2, c1, sti, stj, stk)
         else (True,
               con2\<lparr>cuijk := int32 (int32 (vl_ijk vl - sti)
                                      - int32 (nx con2 * int32 (stj + int32 (ny con2 * stk))))\<rparr>,
               c1, sti, stj, stk))"

text \<open>
  \<^verbatim>\<open>region_index(ei,ej,ek,qx,qy,qz)\<close>. The reference parameters \<^verbatim>\<open>qx, qy, qz\<close> are
  written on a periodic axis only, so their incoming values are arguments and their
  outgoing values are returned with the index. \<^verbatim>\<open>nx<<1\<close> is \<open>push_bit 1 nx\<close>.
\<close>

definition region_index ::
  "('c, 'm) container_base_scheme \<Rightarrow> int \<Rightarrow> int \<Rightarrow> int \<Rightarrow> real \<Rightarrow> real \<Rightarrow> real \<Rightarrow>
   int \<times> real \<times> real \<times> real" where
  "region_index con ei ej ek qx qy qz =
     (let (ei1, qx1) =
            (if xperiodic con
             then (if int32 (cui con + ei) < nx con
                   then (int32 (ei + nx con), - (bx con - ax con))
                   else if int32 (cui con + ei) \<ge> int32 (push_bit 1 (nx con))
                   then (int32 (ei - nx con), bx con - ax con)
                   else (ei, 0))
             else (ei, qx));
          (ej1, qy1) =
            (if yperiodic con
             then (if int32 (cuj con + ej) < ny con
                   then (int32 (ej + ny con), - (by' con - ay con))
                   else if int32 (cuj con + ej) \<ge> int32 (push_bit 1 (ny con))
                   then (int32 (ej - ny con), by' con - ay con)
                   else (ej, 0))
             else (ej, qy));
          (ek1, qz1) =
            (if zperiodic con
             then (if int32 (cuk con + ek) < nz con
                   then (int32 (ek + nz con), - (bz con - az con))
                   else if int32 (cuk con + ek) \<ge> int32 (push_bit 1 (nz con))
                   then (int32 (ek - nz con), bz con - az con)
                   else (ek, 0))
             else (ek, qz))
      in (int32 (int32 (cuijk con + ei1) + int32 (nx con * int32 (ej1 + int32 (ny con * ek1)))),
          qx1, qy1, qz1))"

subsection \<open>class container and class container\_poly\<close>

text \<open>
  \<^verbatim>\<open>compute_cell(c,vl)\<close> is the same in both classes. The search
  \<^verbatim>\<open>vc.compute_cell\<close> belongs to \<^verbatim>\<open>v_compute.hh\<close>: it is the parameter
  \<open>vc_compute_cell\<close>, which may update the container's scratch state and the cell.
\<close>

definition compute_cell ::
  "(('c, 'm) container_base_scheme \<Rightarrow> 'c \<Rightarrow> int \<Rightarrow> int \<Rightarrow> int \<Rightarrow> int \<Rightarrow> int \<Rightarrow>
      real \<Rightarrow> real \<Rightarrow> real \<Rightarrow> bool \<times> ('c, 'm) container_base_scheme \<times> 'c) \<Rightarrow>
   ('c \<Rightarrow> real \<Rightarrow> real \<Rightarrow> real \<Rightarrow> real \<Rightarrow> real \<Rightarrow> real \<Rightarrow> 'c) \<Rightarrow>
   ('c, 'm) container_base_scheme \<Rightarrow> 'c \<Rightarrow> v_loop \<Rightarrow>
   bool \<times> ('c, 'm) container_base_scheme \<times> 'c" where
  "compute_cell vc_compute_cell c_init con c vl =
     (case initialize_voronoicell c_init con c vl of
        (ok, con1, c1, sti, stj, stk) \<Rightarrow>
          if \<not> ok then (False, con1, c1)
          else vc_compute_cell con1 c1 (vl_ijk vl) (vl_q vl) sti stj stk
                 (cux con1) (cuy con1) (cuz con1))"

text \<open>
  \<^verbatim>\<open>container_poly\<close> adds the largest radius \<^verbatim>\<open>max_radius\<close> and the scratch fields
  \<^verbatim>\<open>r_rad, r_mul\<close>; its particle records have four entries, the radius last.
\<close>

record 'c container_poly = "'c container_base" +
  max_radius :: real
  r_rad :: real
  r_mul :: real

text \<open>
  \<^verbatim>\<open>r_rad=p[ijk][4*s+3];
  r_mul=1+(r_rad*r_rad-max_radius*max_radius)/((max_radius+r_rad)*(max_radius+r_rad));
  r_rad*=r_rad;\<close>
\<close>

definition r_init :: "'c container_poly \<Rightarrow> int \<Rightarrow> int \<Rightarrow> 'c container_poly" where
  "r_init con ijk s =
     (let con1 = con\<lparr>r_rad := p con ! nat ijk ! nat (4 * s + 3)\<rparr>;
          con2 = con1\<lparr>r_mul := 1 + (r_rad con1 * r_rad con1 - max_radius con1 * max_radius con1)
                               / ((max_radius con1 + r_rad con1) * (max_radius con1 + r_rad con1))\<rparr>
      in con2\<lparr>r_rad := r_rad con2 * r_rad con2\<rparr>)"

definition r_cutoff :: "'c container_poly \<Rightarrow> real \<Rightarrow> real" where
  "r_cutoff con lrs = r_mul con * lrs"

definition r_scale :: "'c container_poly \<Rightarrow> real \<Rightarrow> int \<Rightarrow> int \<Rightarrow> real" where
  "r_scale con rs ijk q =
     rs + r_rad con - p con ! nat ijk ! nat (4 * q + 3) * (p con ! nat ijk ! nat (4 * q + 3))"

subsection \<open>The weighted container in double arithmetic\<close>

text \<open>
  Where a property depends on how a \<^verbatim>\<open>double\<close> rounds, an operation computes the exact
  result, rounds it with \<open>rnd\<close> and yields a finite number only if the rounded result is at
  most \<open>fmax\<close> in absolute value; otherwise the C++ result is an infinity, and \<open>None\<close>
  here. A division by zero gives an infinity or not a number: \<open>None\<close> as well. \<open>rnd\<close> is
  the rounding of the platform and \<open>fmax\<close> its largest finite \<^verbatim>\<open>double\<close>; both are
  parameters. Every operation is rounded on its own.
\<close>

definition fl :: "(real \<Rightarrow> real) \<Rightarrow> real \<Rightarrow> real \<Rightarrow> real option" where
  "fl rnd fmax v = (if \<bar>rnd v\<bar> \<le> fmax then Some (rnd v) else None)"

definition fl_div :: "(real \<Rightarrow> real) \<Rightarrow> real \<Rightarrow> real \<Rightarrow> real \<Rightarrow> real option" where
  "fl_div rnd fmax a b = (if b = 0 then None else fl rnd fmax (a / b))"

text \<open>
  \<open>r_init\<close> and \<open>r_cutoff\<close> once more, operation by operation: the result is \<open>None\<close> as
  soon as an intermediate value is not a finite number. The sum
  \<^verbatim>\<open>max_radius+r_rad\<close> and the square \<^verbatim>\<open>r_rad*r_rad\<close> occur twice in the source, with
  the same value each time.
\<close>

definition r_init_double ::
  "(real \<Rightarrow> real) \<Rightarrow> real \<Rightarrow> 'c container_poly \<Rightarrow> int \<Rightarrow> int \<Rightarrow> 'c container_poly option" where
  "r_init_double rnd fmax con ijk s =
     (let con1 = con\<lparr>r_rad := p con ! nat ijk ! nat (4 * s + 3)\<rparr>
      in case fl rnd fmax (r_rad con1 * r_rad con1) of None \<Rightarrow> None | Some rr \<Rightarrow>
         (case fl rnd fmax (max_radius con1 * max_radius con1) of None \<Rightarrow> None | Some mm \<Rightarrow>
         (case fl rnd fmax (rr - mm) of None \<Rightarrow> None | Some num \<Rightarrow>
         (case fl rnd fmax (max_radius con1 + r_rad con1) of None \<Rightarrow> None | Some sm \<Rightarrow>
         (case fl rnd fmax (sm * sm) of None \<Rightarrow> None | Some den \<Rightarrow>
         (case fl_div rnd fmax num den of None \<Rightarrow> None | Some quo \<Rightarrow>
         (case fl rnd fmax (1 + quo) of None \<Rightarrow> None | Some m \<Rightarrow>
            Some (con1\<lparr>r_mul := m, r_rad := rr\<rparr>))))))))"


section \<open>Member functions declared in the header and defined elsewhere\<close>

text \<open>
  \<^verbatim>\<open>container.hh\<close> declares \<^verbatim>\<open>put\<close>, \<^verbatim>\<open>put_locate_block\<close>, \<^verbatim>\<open>put_remap\<close>,
  \<^verbatim>\<open>add_particle_memory\<close>, \<^verbatim>\<open>clear\<close> and \<^verbatim>\<open>container_base::point_inside\<close>; their
  bodies are in \<^verbatim>\<open>container.cc\<close>, which is not among the sources. The definitions of this
  section follow the specification's description of them (sections 3, 4.2, 5 and 7). An
  error that the specification calls fatal is the \<open>Inl\<close> result.
\<close>

datatype error = DomainError | MemoryError

text \<open>
  Modelled from the spec: the periodic remap of one coordinate, part of the missing body
  of \<^verbatim>\<open>put_remap\<close>. "If periodic on an axis, shift by integer multiples of the side
  length into the canonical box."
\<close>

definition wrap_axis :: "bool \<Rightarrow> real \<Rightarrow> real \<Rightarrow> real \<Rightarrow> real" where
  "wrap_axis periodic a b x =
     (if periodic then x - (b - a) * of_int \<lfloor>(x - a) / (b - a)\<rfloor> else x)"

text \<open>
  Modelled from the spec: the box coordinate of a remapped coordinate, part of the missing
  body of \<^verbatim>\<open>put_remap\<close>. "Compute ijk from floor((x - a) / box)", with the convention the
  specification proposes for a coordinate exactly on the upper boundary: it belongs to
  the last box.
\<close>

definition axis_box :: "int \<Rightarrow> real \<Rightarrow> real \<Rightarrow> real \<Rightarrow> int" where
  "axis_box n a box x = min (n - 1) \<lfloor>(x - a) / box\<rfloor>"

text \<open>
  Modelled from the spec: \<^verbatim>\<open>container_base::put_remap(ijk,x,y,z)\<close>, whose body is
  missing. "If non-periodic on an axis, reject points outside [a, b] (the container signals
  a domain error). If periodic on an axis, shift into the canonical box. Compute ijk."
  The result is the box index with the remapped position.
\<close>

definition put_remap ::
  "('c, 'm) container_base_scheme \<Rightarrow> real \<Rightarrow> real \<Rightarrow> real \<Rightarrow> error + (int \<times> real \<times> real \<times> real)" where
  "put_remap con x y z =
     (if \<not> xperiodic con \<and> (x < ax con \<or> bx con < x) then Inl DomainError
      else if \<not> yperiodic con \<and> (y < ay con \<or> by' con < y) then Inl DomainError
      else if \<not> zperiodic con \<and> (z < az con \<or> bz con < z) then Inl DomainError
      else
        (let x1 = wrap_axis (xperiodic con) (ax con) (bx con) x;
             y1 = wrap_axis (yperiodic con) (ay con) (by' con) y;
             z1 = wrap_axis (zperiodic con) (az con) (bz con) z
         in Inr (axis_box (nx con) (ax con) (boxx con) x1
                   + nx con * (axis_box (ny con) (ay con) (boxy con) y1
                               + ny con * axis_box (nz con) (az con) (boxz con) z1),
                 x1, y1, z1)))"

text \<open>
  Modelled from the spec: \<^verbatim>\<open>container_base::add_particle_memory(i)\<close>, whose body is
  missing. "Per-box capacity mem[ijk] doubles on overflow. A hard ceiling bounds
  pathological inputs; exceeding it is a fatal error." The ceiling
  \<^verbatim>\<open>max_particle_memory\<close> is a constant of \<^verbatim>\<open>config.hh\<close> and a parameter here; the
  new storage is filled with zeros.
\<close>

definition add_particle_memory ::
  "int \<Rightarrow> ('c, 'm) container_base_scheme \<Rightarrow> int \<Rightarrow> error + ('c, 'm) container_base_scheme" where
  "add_particle_memory max_particle_memory con i =
     (let m = mem con ! nat i
      in if max_particle_memory < 2 * m then Inl MemoryError
         else Inr (con\<lparr>id' := (id' con)[nat i := id' con ! nat i @ replicate (nat m) 0],
                       p := (p con)[nat i := p con ! nat i @ replicate (nat (ps con * m)) 0],
                       mem := (mem con)[nat i := 2 * m]\<rparr>))"

text \<open>
  Modelled from the spec: \<^verbatim>\<open>container_base::put_locate_block(ijk,x,y,z)\<close>, whose body
  is missing: the remap, then "if co[ijk] == mem[ijk], double mem[ijk]".
\<close>

definition put_locate_block ::
  "int \<Rightarrow> ('c, 'm) container_base_scheme \<Rightarrow> real \<Rightarrow> real \<Rightarrow> real \<Rightarrow>
   error + (('c, 'm) container_base_scheme \<times> int \<times> real \<times> real \<times> real)" where
  "put_locate_block max_particle_memory con x y z =
     (case put_remap con x y z of
        Inl e \<Rightarrow> Inl e
      | Inr (ijk, x1, y1, z1) \<Rightarrow>
          if co con ! nat ijk = mem con ! nat ijk
          then (case add_particle_memory max_particle_memory con ijk of
                  Inl e \<Rightarrow> Inl e
                | Inr con1 \<Rightarrow> Inr (con1, ijk, x1, y1, z1))
          else Inr (con, ijk, x1, y1, z1))"

text \<open>
  Modelled from the spec: \<^verbatim>\<open>container::put(n,x,y,z)\<close>, whose body is missing. "Append
  id, coordinates": the id and the position are written to slot \<open>co[ijk]\<close> of box \<open>ijk\<close>,
  and the count of the box goes up by one.
\<close>

definition put ::
  "int \<Rightarrow> ('c, 'm) container_base_scheme \<Rightarrow> int \<Rightarrow> real \<Rightarrow> real \<Rightarrow> real \<Rightarrow>
   error + ('c, 'm) container_base_scheme" where
  "put max_particle_memory con n x y z =
     (case put_locate_block max_particle_memory con x y z of
        Inl e \<Rightarrow> Inl e
      | Inr (con1, ijk, x1, y1, z1) \<Rightarrow>
          (let b = nat ijk; s = nat (co con1 ! b)
           in Inr (con1\<lparr>id' := (id' con1)[b := (id' con1 ! b)[s := n]],
                        p := (p con1)[b := (p con1 ! b)[3 * s := x1, 3 * s + 1 := y1, 3 * s + 2 := z1]],
                        co := (co con1)[b := co con1 ! b + 1]\<rparr>)))"

text \<open>
  Modelled from the spec: \<^verbatim>\<open>container_poly::put(n,x,y,z,r)\<close>, whose body is missing.
  "Append id, coordinates and r": as \<open>put\<close> with four entries for a particle;
  \<^verbatim>\<open>max_radius\<close> stays the largest radius in the container.
\<close>

definition put_poly ::
  "int \<Rightarrow> 'c container_poly \<Rightarrow> int \<Rightarrow> real \<Rightarrow> real \<Rightarrow> real \<Rightarrow> real \<Rightarrow> error + 'c container_poly" where
  "put_poly max_particle_memory con n x y z r =
     (case put_locate_block max_particle_memory con x y z of
        Inl e \<Rightarrow> Inl e
      | Inr (con1, ijk, x1, y1, z1) \<Rightarrow>
          (let b = nat ijk; s = nat (co con1 ! b)
           in Inr (con1\<lparr>id' := (id' con1)[b := (id' con1 ! b)[s := n]],
                        p := (p con1)[b := (p con1 ! b)[4 * s := x1, 4 * s + 1 := y1,
                                                        4 * s + 2 := z1, 4 * s + 3 := r]],
                        co := (co con1)[b := co con1 ! b + 1],
                        max_radius := max (max_radius con1) r\<rparr>)))"

text \<open>
  Modelled from the spec: \<^verbatim>\<open>container::clear()\<close>, whose body is missing. "Clearing
  resets co[.] to 0; capacities are retained."
\<close>

definition clear :: "('c, 'm) container_base_scheme \<Rightarrow> ('c, 'm) container_base_scheme" where
  "clear con = con\<lparr>co := map (\<lambda>c. 0) (co con)\<rparr>"

text \<open>
  Modelled from the spec: \<^verbatim>\<open>container_base::point_inside(x,y,z)\<close>, whose body is
  missing. "True iff (x,y,z) lies in [ax,bx] x [ay,by] x [az,bz] (after periodic remap) and
  every wall reports point_inside." The walls are asked through \<open>point_inside_walls\<close> of
  the header, about the remapped point.
\<close>

definition point_inside_container ::
  "('c, 'm) container_base_scheme \<Rightarrow> real \<Rightarrow> real \<Rightarrow> real \<Rightarrow> bool" where
  "point_inside_container con x y z =
     (let x1 = wrap_axis (xperiodic con) (ax con) (bx con) x;
          y1 = wrap_axis (yperiodic con) (ay con) (by' con) y;
          z1 = wrap_axis (zperiodic con) (az con) (bz con) z
      in if x1 < ax con \<or> bx con < x1 \<or> y1 < ay con \<or> by' con < y1 \<or> z1 < az con \<or> bz con < z1
         then False
         else point_inside_walls (walls con) x1 y1 z1)"

section \<open>Vocabulary of the properties\<close>

text \<open>
  The particle a loop object points at is stored: its box exists, its slot is below the
  count of the box, and the box's storage holds \<open>ps\<close> entries for every counted slot.
\<close>

definition particle_stored :: "('c, 'm) container_base_scheme \<Rightarrow> v_loop \<Rightarrow> bool" where
  "particle_stored con vl \<longleftrightarrow>
     0 \<le> vl_ijk vl \<and> nat (vl_ijk vl) < length (p con) \<and> nat (vl_ijk vl) < length (co con) \<and>
     0 \<le> vl_q vl \<and> vl_q vl < co con ! nat (vl_ijk vl) \<and> 3 \<le> ps con \<and>
     nat (ps con * co con ! nat (vl_ijk vl)) \<le> length (p con ! nat (vl_ijk vl))"

text \<open>The position stored at box \<^verbatim>\<open>vl.ijk\<close>, slot \<^verbatim>\<open>vl.q\<close>.\<close>

definition source_x :: "('c, 'm) container_base_scheme \<Rightarrow> v_loop \<Rightarrow> real" where
  "source_x con vl = p con ! nat (vl_ijk vl) ! nat (ps con * vl_q vl)"

definition source_y :: "('c, 'm) container_base_scheme \<Rightarrow> v_loop \<Rightarrow> real" where
  "source_y con vl = p con ! nat (vl_ijk vl) ! (nat (ps con * vl_q vl) + 1)"

definition source_z :: "('c, 'm) container_base_scheme \<Rightarrow> v_loop \<Rightarrow> real" where
  "source_z con vl = p con ! nat (vl_ijk vl) ! (nat (ps con * vl_q vl) + 2)"

text \<open>
  The bounds of the initial cell on one axis as the specification words them: on a
  periodic axis from \<open>- L / 2\<close> to \<open>L / 2\<close> with \<open>L = b - a\<close>, on a non-periodic axis from
  \<open>a - s\<close> to \<open>b - s\<close>, where \<open>s\<close> is the particle's coordinate. \<open>container_box\<close> is the
  cell initialised to the box with these bounds.
\<close>

definition axis_lower :: "bool \<Rightarrow> real \<Rightarrow> real \<Rightarrow> real \<Rightarrow> real" where
  "axis_lower periodic a b s = (if periodic then - ((b - a) / 2) else a - s)"

definition axis_upper :: "bool \<Rightarrow> real \<Rightarrow> real \<Rightarrow> real \<Rightarrow> real" where
  "axis_upper periodic a b s = (if periodic then (b - a) / 2 else b - s)"

definition container_box ::
  "('c \<Rightarrow> real \<Rightarrow> real \<Rightarrow> real \<Rightarrow> real \<Rightarrow> real \<Rightarrow> real \<Rightarrow> 'c) \<Rightarrow>
   ('c, 'm) container_base_scheme \<Rightarrow> v_loop \<Rightarrow> 'c \<Rightarrow> 'c" where
  "container_box c_init con vl c =
     c_init c
       (axis_lower (xperiodic con) (ax con) (bx con) (source_x con vl))
       (axis_upper (xperiodic con) (ax con) (bx con) (source_x con vl))
       (axis_lower (yperiodic con) (ay con) (by' con) (source_y con vl))
       (axis_upper (yperiodic con) (ay con) (by' con) (source_y con vl))
       (axis_lower (zperiodic con) (az con) (bz con) (source_z con vl))
       (axis_upper (zperiodic con) (az con) (bz con) (source_z con vl))"

text \<open>
  In \<^verbatim>\<open>container_poly\<close> the radius of the particle in slot \<open>s\<close> of box \<open>ijk\<close> is the
  entry \<^verbatim>\<open>p[ijk][4*s+3]\<close>; \<open>radius_stored\<close> says that this entry lies in the array.
\<close>

definition radius_stored :: "'c container_poly \<Rightarrow> int \<Rightarrow> int \<Rightarrow> bool" where
  "radius_stored con ijk s \<longleftrightarrow>
     0 \<le> ijk \<and> nat ijk < length (p con) \<and> 0 \<le> s \<and> nat (4 * s + 3) < length (p con ! nat ijk)"

definition radius :: "'c container_poly \<Rightarrow> int \<Rightarrow> int \<Rightarrow> real" where
  "radius con ijk s = p con ! nat ijk ! nat (4 * s + 3)"

text \<open>
  Vocabulary for \<open>region_index\<close>. The search names a block by an index \<open>e\<close> per axis. On
  a periodic axis the particle's own box \<open>cu\<close> has the index \<open>n\<close>, so \<open>e\<close> stands for the
  unwrapped box \<open>cu + e - n\<close> (\<open>unwrapped_box\<close>), and the target is that box wrapped into
  the grid; on a non-periodic axis \<open>e\<close> is the box itself. \<open>axis_shift\<close> is the
  displacement: \<open>- L\<close>, \<open>0\<close> or \<open>L\<close> on a periodic axis as the unwrapped box lies below,
  inside or above the grid, and the value \<open>q\<close> passed in on a non-periodic axis.
  \<open>in_box a box i x\<close> says that the coordinate \<open>x\<close> lies in box number \<open>i\<close> of an axis that
  starts at \<open>a\<close> with boxes of side \<open>box\<close>.
\<close>

definition unwrapped_box :: "int \<Rightarrow> int \<Rightarrow> int \<Rightarrow> int" where
  "unwrapped_box n cu e = cu + e - n"

definition axis_target :: "bool \<Rightarrow> int \<Rightarrow> int \<Rightarrow> int \<Rightarrow> int" where
  "axis_target periodic n cu e = (if periodic then unwrapped_box n cu e mod n else e)"

definition axis_shift :: "bool \<Rightarrow> int \<Rightarrow> int \<Rightarrow> int \<Rightarrow> real \<Rightarrow> real \<Rightarrow> real" where
  "axis_shift periodic n cu e L q =
     (if periodic
      then (if unwrapped_box n cu e < 0 then - L else if n \<le> unwrapped_box n cu e then L else 0)
      else q)"

definition in_box :: "real \<Rightarrow> real \<Rightarrow> int \<Rightarrow> real \<Rightarrow> bool" where
  "in_box a box i x \<longleftrightarrow> a + box * of_int i \<le> x \<and> x < a + box * of_int (i + 1)"

text \<open>
  The exact values behind the index arithmetic. \<open>start_index\<close> is what
  \<open>initialize_voronoicell\<close> stores in \<^verbatim>\<open>sti, stj, stk\<close>; \<open>adjusted_index\<close> is the block
  index after the periodic branch of \<open>region_index\<close>. \<open>no_int_overflow\<close> says that every
  \<^verbatim>\<open>int\<close> value which the \<^verbatim>\<open>cuijk\<close> line of \<open>initialize_voronoicell\<close> and then
  \<open>region_index\<close> compute is in the 32-bit range when computed exactly: the sum
  \<open>cu + e\<close> on a periodic axis, \<open>2 n\<close> where it is compared, the adjusted indices, and
  each product and sum of the two linear indices.
\<close>

definition start_index :: "bool \<Rightarrow> int \<Rightarrow> int \<Rightarrow> int" where
  "start_index periodic n cu = (if periodic then n else cu)"

definition adjusted_index :: "bool \<Rightarrow> int \<Rightarrow> int \<Rightarrow> int \<Rightarrow> int" where
  "adjusted_index periodic n cu e =
     (if periodic then (if cu + e < n then e + n else if 2 * n \<le> cu + e then e - n else e)
      else e)"

definition axis_fits :: "bool \<Rightarrow> int \<Rightarrow> int \<Rightarrow> int \<Rightarrow> bool" where
  "axis_fits periodic n cu e \<longleftrightarrow>
     (periodic \<longrightarrow> in_int32 (cu + e) \<and> (n \<le> cu + e \<longrightarrow> in_int32 (2 * n))) \<and>
     in_int32 (adjusted_index periodic n cu e)"

definition no_int_overflow ::
  "('c, 'm) container_base_scheme \<Rightarrow> v_loop \<Rightarrow> int \<Rightarrow> int \<Rightarrow> int \<Rightarrow> bool" where
  "no_int_overflow con vl ei ej ek \<longleftrightarrow>
     (let sti = start_index (xperiodic con) (nx con) (vl_i vl);
          stj = start_index (yperiodic con) (ny con) (vl_j vl);
          stk = start_index (zperiodic con) (nz con) (vl_k vl);
          c = vl_ijk vl - sti - nx con * (stj + ny con * stk);
          e1 = adjusted_index (xperiodic con) (nx con) (vl_i vl) ei;
          e2 = adjusted_index (yperiodic con) (ny con) (vl_j vl) ej;
          e3 = adjusted_index (zperiodic con) (nz con) (vl_k vl) ek
      in in_int32 (ny con * stk) \<and> in_int32 (stj + ny con * stk) \<and>
         in_int32 (nx con * (stj + ny con * stk)) \<and> in_int32 (vl_ijk vl - sti) \<and> in_int32 c \<and>
         axis_fits (xperiodic con) (nx con) (vl_i vl) ei \<and>
         axis_fits (yperiodic con) (ny con) (vl_j vl) ej \<and>
         axis_fits (zperiodic con) (nz con) (vl_k vl) ek \<and>
         in_int32 (ny con * e3) \<and> in_int32 (e2 + ny con * e3) \<and>
         in_int32 (nx con * (e2 + ny con * e3)) \<and> in_int32 (c + e1) \<and>
         in_int32 (c + e1 + nx con * (e2 + ny con * e3)))"



text \<open>
  The target box as C6 words it: periodic axes wrap, non-periodic axes clamp the index
  into \<open>0 .. n - 1\<close>.
\<close>

definition clamped_axis :: "bool \<Rightarrow> int \<Rightarrow> int \<Rightarrow> int \<Rightarrow> int" where
  "clamped_axis periodic n cu e =
     (if periodic then unwrapped_box n cu e mod n else max 0 (min (n - 1) e))"

definition clamped_region_index :: "('c, 'm) container_base_scheme \<Rightarrow> int \<Rightarrow> int \<Rightarrow> int \<Rightarrow> int" where
  "clamped_region_index con ei ej ek =
     clamped_axis (xperiodic con) (nx con) (cui con) ei
       + nx con * (clamped_axis (yperiodic con) (ny con) (cuj con) ej
                   + ny con * clamped_axis (zperiodic con) (nz con) (cuk con) ek)"

text \<open>
  A point that on some non-periodic axis lies outside \<open>[a, b]\<close>; and a container whose
  capacities are not negative.
\<close>

definition outside_domain :: "('c, 'm) container_base_scheme \<Rightarrow> real \<Rightarrow> real \<Rightarrow> real \<Rightarrow> bool" where
  "outside_domain con x y z \<longleftrightarrow>
     \<not> xperiodic con \<and> (x < ax con \<or> bx con < x) \<or>
     \<not> yperiodic con \<and> (y < ay con \<or> by' con < y) \<or>
     \<not> zperiodic con \<and> (z < az con \<or> bz con < z)"

definition capacities_ok :: "('c, 'm) container_base_scheme \<Rightarrow> bool" where
  "capacities_ok con \<longleftrightarrow> list_all (\<lambda>m. 0 \<le> m) (mem con)"

text \<open>No count and no capacity of \<open>con'\<close> is below that of \<open>con\<close>, box by box.\<close>

definition never_decreased ::
  "('c, 'm) container_base_scheme \<Rightarrow> ('c, 'm) container_base_scheme \<Rightarrow> bool" where
  "never_decreased con con' \<longleftrightarrow>
     length (co con') = length (co con) \<and> length (mem con') = length (mem con) \<and>
     (\<forall>i<length (co con). co con ! i \<le> co con' ! i) \<and>
     (\<forall>i<length (mem con). mem con ! i \<le> mem con' ! i)"

section \<open>Example data\<close>

text \<open>
  A wall whose \<^verbatim>\<open>cut_cell\<close> records its number \<open>k\<close> in the cell (a cell that is the log
  of the cuts made on it) and answers \<open>ok\<close>.
\<close>

definition logging_wall :: "nat \<Rightarrow> bool \<Rightarrow> nat list wall" where
  "logging_wall k ok = \<lparr>point_inside = (\<lambda>x y z. ok), cut_cell = (\<lambda>c x y z. (ok, c @ [k]))\<rparr>"

text \<open>
  A cell that is the list of its six bounds \<open>[x1, x2, y1, y2, z1, z2]\<close>, and the wall
  \<open>x \<le> w\<close> on such cells: seen from a particle at \<open>x\<close> it lowers the upper \<open>x\<close> bound to
  \<open>w - x\<close>, and the cell survives when its lower \<open>x\<close> bound is below that.
\<close>

definition bounds_init ::
  "real list \<Rightarrow> real \<Rightarrow> real \<Rightarrow> real \<Rightarrow> real \<Rightarrow> real \<Rightarrow> real \<Rightarrow> real list" where
  "bounds_init c x1 x2 y1 y2 z1 z2 = [x1, x2, y1, y2, z1, z2]"

definition x_wall :: "real \<Rightarrow> real list wall" where
  "x_wall w = \<lparr>point_inside = (\<lambda>x y z. x \<le> w),
              cut_cell = (\<lambda>c x y z. (c ! 0 < w - x, c[1 := min (c ! 1) (w - x)]))\<rparr>"

text \<open>
  The unit cube with a \<open>2 \<times> 2 \<times> 2\<close> grid, periodic in \<open>x\<close> only, holding the particle
  \<open>7\<close> at \<open>(1/4, 1/2, 3/4)\<close>, which lies in box \<open>(0, 1, 1)\<close> with linear index \<open>6\<close>.
\<close>

definition slab :: "real list container_base" where
  "slab =
     \<lparr>nx = 2, ny = 2, nz = 2, boxx = 1 / 2, boxy = 1 / 2, boxz = 1 / 2, walls = [x_wall (1 / 2)],
      ax = 0, bx = 1, ay = 0, by' = 1, az = 0, bz = 1,
      xperiodic = True, yperiodic = False, zperiodic = False,
      id' = [[0], [0], [0], [0], [0], [0], [7], [0]],
      p = [[0, 0, 0], [0, 0, 0], [0, 0, 0], [0, 0, 0], [0, 0, 0], [0, 0, 0],
           [1 / 4, 1 / 2, 3 / 4], [0, 0, 0]],
      co = [0, 0, 0, 0, 0, 0, 1, 0], mem = [1, 1, 1, 1, 1, 1, 1, 1], ps = 3,
      cux = 0, cuy = 0, cuz = 0, cui = 0, cuj = 0, cuk = 0, cuijk = 0\<rparr>"

definition slab_vl :: v_loop where
  "slab_vl = \<lparr>vl_i = 0, vl_j = 1, vl_k = 1, vl_ijk = 6, vl_q = 0\<rparr>"

text \<open>The slab after \<open>initialize_voronoicell\<close> for its particle.\<close>

definition slab_current :: "real list container_base" where
  "slab_current = fst (snd (initialize_voronoicell bounds_init slab [] slab_vl))"

text \<open>
  A weighted container \<open>[-5, 5]\<^sup>3\<close> of one box holding three particles: radius \<open>1\<close> at the
  origin, radius \<open>2\<close> at \<open>(3, 0, 0)\<close> and radius \<open>0\<close> at \<open>(1, 1, 1)\<close>.
\<close>

definition two_spheres :: "unit container_poly" where
  "two_spheres =
     \<lparr>nx = 1, ny = 1, nz = 1, boxx = 10, boxy = 10, boxz = 10, walls = [],
      ax = -5, bx = 5, ay = -5, by' = 5, az = -5, bz = 5,
      xperiodic = False, yperiodic = False, zperiodic = False,
      id' = [[0, 1, 2, 0]], p = [[0, 0, 0, 1, 3, 0, 0, 2, 1, 1, 1, 0, 0, 0, 0, 0]],
      co = [3], mem = [4], ps = 4,
      cux = 0, cuy = 0, cuz = 0, cui = 0, cuj = 0, cuk = 0, cuijk = 0,
      max_radius = 2, r_rad = 0, r_mul = 0\<rparr>"

text \<open>
  A small binary fixed-point format for the examples: rounding to the nearest multiple of
  \<open>1/1024\<close>, with \<open>65536\<close> as the largest finite number. A weighted container of one box
  with a particle of radius \<open>1/1024\<close> next to one of radius \<open>64\<close>.
\<close>

definition rnd_fix :: "real \<Rightarrow> real" where
  "rnd_fix x = of_int \<lfloor>x * 1024 + 1 / 2\<rfloor> / 1024"

definition grain :: "unit container_poly" where
  "grain =
     \<lparr>nx = 1, ny = 1, nz = 1, boxx = 200, boxy = 200, boxz = 200, walls = [],
      ax = -100, bx = 100, ay = -100, by' = 100, az = -100, bz = 100,
      xperiodic = False, yperiodic = False, zperiodic = False,
      id' = [[0, 1]], p = [[0, 0, 0, 1 / 1024, 70, 0, 0, 64]],
      co = [2], mem = [2], ps = 4,
      cux = 0, cuy = 0, cuz = 0, cui = 0, cuj = 0, cuk = 0, cuijk = 0,
      max_radius = 64, r_rad = 0, r_mul = 0\<rparr>"

text \<open>
  The empty non-periodic unit cube with a \<open>2 \<times> 1 \<times> 1\<close> grid and room for one particle in
  each box.
\<close>

definition unit_cube :: "unit container_base" where
  "unit_cube =
     \<lparr>nx = 2, ny = 1, nz = 1, boxx = 1 / 2, boxy = 1, boxz = 1, walls = [],
      ax = 0, bx = 1, ay = 0, by' = 1, az = 0, bz = 1,
      xperiodic = False, yperiodic = False, zperiodic = False,
      id' = [[0], [0]], p = [[0, 0, 0], [0, 0, 0]],
      co = [0, 0], mem = [1, 1], ps = 3,
      cux = 0, cuy = 0, cuz = 0, cui = 0, cuj = 0, cuk = 0, cuijk = 0\<rparr>"

text \<open>The unit cube after the particle \<open>5\<close> at \<open>(3/4, 1/2, 1/2)\<close> has been put into it.\<close>

definition unit_cube1 :: "unit container_base" where
  "unit_cube1 = unit_cube\<lparr>id' := [[0], [5]], p := [[0, 0, 0], [3 / 4, 1 / 2, 1 / 2]], co := [0, 1]\<rparr>"

text \<open>And after the particle \<open>6\<close> at \<open>(1, 1, 1)\<close> has followed into the same box.\<close>

definition unit_cube2 :: "unit container_base" where
  "unit_cube2 =
     unit_cube\<lparr>id' := [[0], [5, 6]], p := [[0, 0, 0], [3 / 4, 1 / 2, 1 / 2, 1, 1, 1]],
               co := [0, 2], mem := [1, 2]\<rparr>"

section \<open>Machine integers\<close>

lemma int32_id: "in_int32 v \<Longrightarrow> int32 v = v"
proof -
  assume "in_int32 v"
  then have "0 \<le> v + 2 ^ 31" "v + 2 ^ 31 < 2 ^ 32" by (simp_all add: in_int32_def)
  then have "(v + 2 ^ 31) mod 2 ^ 32 = v + 2 ^ 31" by (rule mod_pos_pos_trivial)
  then show ?thesis by (simp add: int32_def)
qed

section \<open>The wall list\<close>

lemma cuts_Cons: "cuts (w # ws) c x y z = cuts ws (snd (cut_cell w c x y z)) x y z"
  by (simp add: cuts_def)

lemma survives_at_0: "survives_at (w # ws) c x y z 0 = fst (cut_cell w c x y z)"
  by (simp add: survives_at_def cuts_def)

lemma survives_at_Suc:
  "survives_at (w # ws) c x y z (Suc n) = survives_at ws (snd (cut_cell w c x y z)) x y z n"
  by (simp add: survives_at_def cuts_def)

lemma all_survive_Cons:
  "(\<forall>n<length (w # ws). survives_at (w # ws) c x y z n) \<longleftrightarrow>
   fst (cut_cell w c x y z) \<and> (\<forall>n<length ws. survives_at ws (snd (cut_cell w c x y z)) x y z n)"
  by (simp add: All_less_Suc2 survives_at_0 survives_at_Suc)

lemma apply_walls_fst:
  "fst (apply_walls ws c x y z) \<longleftrightarrow> (\<forall>n<length ws. survives_at ws c x y z n)"
proof (induction ws arbitrary: c)
  case Nil
  show ?case by simp
next
  case (Cons w ws)
  show ?case
    unfolding all_survive_Cons
    by (cases "cut_cell w c x y z") (simp add: Cons.IH)
qed

lemma apply_walls_all:
  "(\<forall>n<length ws. survives_at ws c x y z n) \<Longrightarrow>
   apply_walls ws c x y z = (True, cuts ws c x y z)"
proof (induction ws arbitrary: c)
  case Nil
  show ?case by (simp add: cuts_def)
next
  case (Cons w ws)
  from Cons.prems have ok: "fst (cut_cell w c x y z)"
    and rest: "\<forall>n<length ws. survives_at ws (snd (cut_cell w c x y z)) x y z n"
    unfolding all_survive_Cons by simp_all
  from Cons.IH [OF rest] ok show ?case
    by (cases "cut_cell w c x y z") (simp add: cuts_Cons)
qed

lemma apply_walls_first_failure:
  "n < length ws \<Longrightarrow> (\<forall>m<n. survives_at ws c x y z m) \<Longrightarrow> \<not> survives_at ws c x y z n \<Longrightarrow>
   apply_walls ws c x y z = (False, cuts (take (Suc n) ws) c x y z)"
proof (induction ws arbitrary: c n)
  case Nil
  then show ?case by simp
next
  case (Cons w ws)
  show ?case
  proof (cases n)
    case 0
    with Cons.prems show ?thesis
      by (cases "cut_cell w c x y z") (simp add: survives_at_0 cuts_def)
  next
    case (Suc k)
    from Cons.prems Suc have ok: "fst (cut_cell w c x y z)"
      using survives_at_0 [of w ws c x y z] by auto
    have k: "k < length ws" using Cons.prems Suc by simp
    have before: "\<forall>m<k. survives_at ws (snd (cut_cell w c x y z)) x y z m"
      using Cons.prems(2) Suc survives_at_Suc [of w ws c x y z] by auto
    have fails: "\<not> survives_at ws (snd (cut_cell w c x y z)) x y z k"
      using Cons.prems(3) Suc by (simp add: survives_at_Suc)
    from Cons.IH [OF k before fails] ok Suc show ?thesis
      by (cases "cut_cell w c x y z") (simp add: cuts_Cons)
  qed
qed

lemma survives_at_prefix:
  "m \<le> n \<Longrightarrow> n < length ws \<Longrightarrow>
   survives_at (take (Suc n) ws @ others) c x y z m = survives_at ws c x y z m"
  by (simp add: survives_at_def nth_append min_def)

lemma apply_walls_ignores_later:
  assumes "n < length ws" and "\<forall>m<n. survives_at ws c x y z m" and "\<not> survives_at ws c x y z n"
  shows "apply_walls (take (Suc n) ws @ others) c x y z = apply_walls ws c x y z"
proof -
  let ?vs = "take (Suc n) ws @ others"
  have len: "n < length ?vs" using assms(1) by simp
  have before: "\<forall>m<n. survives_at ?vs c x y z m"
    using assms(1,2) by (simp add: survives_at_prefix)
  have fails: "\<not> survives_at ?vs c x y z n"
    using assms(1,3) by (simp add: survives_at_prefix)
  have "apply_walls ?vs c x y z = (False, cuts (take (Suc n) ?vs) c x y z)"
    by (rule apply_walls_first_failure [OF len before fails])
  also have "take (Suc n) ?vs = take (Suc n) ws" using assms(1) by simp
  also have "(False, cuts (take (Suc n) ws) c x y z) = apply_walls ws c x y z"
    by (rule apply_walls_first_failure [OF assms, symmetric])
  finally show ?thesis .
qed

lemma add_wall_order: "foldl add_wall [] ws = ws"
proof -
  have "foldl add_wall vs ws = vs @ ws" for vs :: "'a wall list"
    by (induction ws arbitrary: vs) (simp_all add: add_wall_def)
  then show ?thesis by simp
qed

text \<open>
  C4. \<open>apply_walls\<close> invokes the walls' \<^verbatim>\<open>cut_cell\<close> in the order the walls were added
  (adding the walls of \<open>ws\<close> one by one gives the list \<open>ws\<close>) and stops at the first wall
  that annihilates the cell. It returns true exactly when every wall, invoked on the cell
  the earlier walls left, reports survival, and then the cell has been cut by all of
  them. When wall number \<open>n\<close> is the first to report annihilation, it returns false with
  the cell cut by the walls \<open>0 .. n\<close> and by no other: whatever walls \<open>others\<close> follow wall
  \<open>n\<close>, the result is the same.
\<close>

theorem apply_walls_short_circuit:
  "foldl add_wall [] ws = ws \<and>
   (fst (apply_walls ws c x y z) \<longleftrightarrow> (\<forall>n<length ws. survives_at ws c x y z n)) \<and>
   ((\<forall>n<length ws. survives_at ws c x y z n) \<longrightarrow>
      apply_walls ws c x y z = (True, cuts ws c x y z)) \<and>
   (\<forall>n<length ws. (\<forall>m<n. survives_at ws c x y z m) \<and> \<not> survives_at ws c x y z n \<longrightarrow>
      apply_walls ws c x y z = (False, cuts (take (Suc n) ws) c x y z) \<and>
      (\<forall>others. apply_walls (take (Suc n) ws @ others) c x y z = apply_walls ws c x y z))"
  using add_wall_order [of ws] apply_walls_fst [of ws c x y z] apply_walls_all [of ws c x y z]
    apply_walls_first_failure [of _ ws c x y z] apply_walls_ignores_later [of _ ws c x y z]
  by blast

text \<open>
  Three logging walls of which the second annihilates: the log shows walls 1 and 2, in
  this order, and not wall 3.
\<close>

theorem apply_walls_short_circuit_witness:
  "survives_at [logging_wall 1 True, logging_wall 2 False, logging_wall 3 True] [] 0 0 0 0 \<and>
   \<not> survives_at [logging_wall 1 True, logging_wall 2 False, logging_wall 3 True] [] 0 0 0 1 \<and>
   apply_walls [logging_wall 1 True, logging_wall 2 False, logging_wall 3 True] [] 0 0 0
     = (False, [1, 2]) \<and>
   apply_walls (foldl add_wall [] [logging_wall 1 True, logging_wall 3 True]) [] 0 0 0
     = (True, [1, 3])"
proof -
  let ?ws = "[logging_wall 1 True, logging_wall 2 False, logging_wall 3 True]"
  have s0: "survives_at ?ws [] 0 0 0 0" and s1: "\<not> survives_at ?ws [] 0 0 0 1"
    by (simp_all add: survives_at_def cuts_def logging_wall_def)
  have c: "cuts (take (Suc 1) ?ws) [] 0 0 0 = [1, 2]"
    by (simp add: cuts_def logging_wall_def)
  have "apply_walls ?ws [] 0 0 0 = (False, cuts (take (Suc 1) ?ws) [] 0 0 0)"
    using apply_walls_short_circuit [of ?ws "[]" 0 0 0] s0 s1 by (simp add: All_less_Suc)
  moreover have "apply_walls (foldl add_wall [] [logging_wall 1 True, logging_wall 3 True]) [] 0 0 0
     = (True, [1, 3])"
    by (simp add: add_wall_def logging_wall_def)
  ultimately show ?thesis using s0 s1 c by simp
qed

section \<open>Cell initialisation\<close>

text \<open>
  The function with its intermediate values named: the current particle is the stored
  position, the start indices are \<open>nx\<close> (periodic) or the particle's box index
  (non-periodic), and the walls see the cell initialised to \<open>container_box\<close>.
\<close>

lemma initialize_voronoicell_eq:
  "initialize_voronoicell c_init con c vl =
     (let con2 = con\<lparr>cux := source_x con vl, cuy := source_y con vl, cuz := source_z con vl,
                     cui := vl_i vl, cuj := vl_j vl, cuk := vl_k vl\<rparr>;
          sti = (if xperiodic con then nx con else vl_i vl);
          stj = (if yperiodic con then ny con else vl_j vl);
          stk = (if zperiodic con then nz con else vl_k vl);
          w = apply_walls (walls con) (container_box c_init con vl c)
                (source_x con vl) (source_y con vl) (source_z con vl)
      in if fst w
         then (True,
               con2\<lparr>cuijk := int32 (int32 (vl_ijk vl - sti)
                                      - int32 (nx con * int32 (stj + int32 (ny con * stk))))\<rparr>,
               snd w, sti, stj, stk)
         else (False, con2, snd w, sti, stj, stk))"
proof (cases "xperiodic con"; cases "yperiodic con"; cases "zperiodic con")
qed (simp_all add: initialize_voronoicell_def Let_def container_box_def axis_lower_def
      axis_upper_def source_x_def source_y_def source_z_def case_prod_beta)

lemma initialize_voronoicell_walls:
  "\<exists>con' sti stj stk.
     initialize_voronoicell c_init con c vl =
       (fst (apply_walls (walls con) (container_box c_init con vl c)
               (source_x con vl) (source_y con vl) (source_z con vl)),
        con',
        snd (apply_walls (walls con) (container_box c_init con vl c)
               (source_x con vl) (source_y con vl) (source_z con vl)),
        sti, stj, stk) \<and>
     cux con' = source_x con vl \<and> cuy con' = source_y con vl \<and> cuz con' = source_z con vl"
  by (simp add: initialize_voronoicell_eq Let_def)

lemma slab_stored: "particle_stored slab slab_vl"
  by (simp add: particle_stored_def slab_def slab_vl_def)

lemma slab_source:
  "source_x slab slab_vl = 1 / 4" "source_y slab slab_vl = 1 / 2" "source_z slab slab_vl = 3 / 4"
  by (simp_all add: source_x_def source_y_def source_z_def slab_def slab_vl_def)

lemma slab_box:
  "container_box bounds_init slab slab_vl c = [- (1 / 2), 1 / 2, - (1 / 2), 1 / 2, - (3 / 4), 1 / 4]"
  by (simp add: container_box_def bounds_init_def axis_lower_def axis_upper_def slab_source)
    (simp add: slab_def)

lemma slab_walls:
  "apply_walls (walls slab) (container_box bounds_init slab slab_vl [])
     (source_x slab slab_vl) (source_y slab slab_vl) (source_z slab slab_vl)
   = (True, [- (1 / 2), 1 / 4, - (1 / 2), 1 / 2, - (3 / 4), 1 / 4])"
  by (simp add: slab_box slab_source) (simp add: slab_def x_wall_def)

lemma walled_off:
  "particle_stored (slab\<lparr>walls := [x_wall (- 1)]\<rparr>) slab_vl"
  "\<not> fst (apply_walls (walls (slab\<lparr>walls := [x_wall (- 1)]\<rparr>))
         (container_box bounds_init (slab\<lparr>walls := [x_wall (- 1)]\<rparr>) slab_vl [])
         (source_x (slab\<lparr>walls := [x_wall (- 1)]\<rparr>) slab_vl)
         (source_y (slab\<lparr>walls := [x_wall (- 1)]\<rparr>) slab_vl)
         (source_z (slab\<lparr>walls := [x_wall (- 1)]\<rparr>) slab_vl))"
  by (simp_all add: particle_stored_def container_box_def bounds_init_def axis_lower_def
      axis_upper_def source_x_def source_y_def source_z_def slab_def slab_vl_def x_wall_def)

text \<open>
  C1. For a particle stored at box \<^verbatim>\<open>vl.ijk\<close>, slot \<^verbatim>\<open>vl.q\<close>,
  \<open>initialize_voronoicell\<close> records the stored position as the current particle and
  initialises the cell to the axis-aligned box whose bounds are, on a non-periodic axis,
  \<open>a - s\<close> and \<open>b - s\<close> for the particle's coordinate \<open>s\<close>, and on a periodic axis
  \<open>- L / 2\<close> and \<open>L / 2\<close> with \<open>L = b - a\<close>; the walls are applied to that cell: the flag
  and the cell it returns are what \<open>apply_walls\<close> makes of the box.
\<close>

theorem initialize_voronoicell_box:
  assumes "particle_stored con vl"
  shows "case initialize_voronoicell c_init con c vl of
           (ok, con', c', sti, stj, stk) \<Rightarrow>
             (ok, c') = apply_walls (walls con) (container_box c_init con vl c)
                          (source_x con vl) (source_y con vl) (source_z con vl) \<and>
             (cux con', cuy con', cuz con') = (source_x con vl, source_y con vl, source_z con vl)"
  using initialize_voronoicell_walls [of c_init con c vl] by auto

text \<open>
  In the slab, periodic in \<open>x\<close> only, the particle at \<open>(1/4, 1/2, 3/4)\<close> starts from the
  box \<open>[-1/2, 1/2] \<times> [-1/2, 1/2] \<times> [-3/4, 1/4]\<close>, which the wall \<open>x \<le> 1/2\<close> then cuts.
\<close>

theorem initialize_voronoicell_box_witness:
  "particle_stored slab slab_vl \<and>
   container_box bounds_init slab slab_vl [] = [- (1 / 2), 1 / 2, - (1 / 2), 1 / 2, - (3 / 4), 1 / 4] \<and>
   fst (initialize_voronoicell bounds_init slab [] slab_vl) \<and>
   fst (snd (snd (initialize_voronoicell bounds_init slab [] slab_vl)))
     = [- (1 / 2), 1 / 4, - (1 / 2), 1 / 2, - (3 / 4), 1 / 4]"
  using initialize_voronoicell_box [OF slab_stored, of bounds_init "[]"] slab_walls slab_stored
    slab_box [of "[]"]
  by (auto split: prod.splits)

text \<open>
  C5. For a stored particle, \<open>initialize_voronoicell\<close> returns false exactly when the wall
  cuts applied to the initial box remove the cell, and true otherwise; it returns a flag,
  never an error. When it returns false, \<open>compute_cell\<close> returns false as well, whatever
  the search \<^verbatim>\<open>vc.compute_cell\<close> would do.
\<close>

theorem initialize_voronoicell_no_cell:
  assumes "particle_stored con vl"
  shows "fst (initialize_voronoicell c_init con c vl) =
           fst (apply_walls (walls con) (container_box c_init con vl c)
                  (source_x con vl) (source_y con vl) (source_z con vl)) \<and>
         (\<not> fst (initialize_voronoicell c_init con c vl) \<longrightarrow>
            \<not> fst (compute_cell vc_compute_cell c_init con c vl))"
  using initialize_voronoicell_walls [of c_init con c vl]
  by (auto simp: compute_cell_def)

text \<open>
  With the wall \<open>x \<le> -1\<close> the slab's particle has no cell, although the search would
  answer true; with the wall \<open>x \<le> 1/2\<close> the initialisation succeeds.
\<close>

theorem initialize_voronoicell_no_cell_witness:
  "particle_stored (slab\<lparr>walls := [x_wall (- 1)]\<rparr>) slab_vl \<and>
   \<not> fst (initialize_voronoicell bounds_init (slab\<lparr>walls := [x_wall (- 1)]\<rparr>) [] slab_vl) \<and>
   \<not> fst (compute_cell (\<lambda>con c ijk q sti stj stk x y z. (True, con, c)) bounds_init
           (slab\<lparr>walls := [x_wall (- 1)]\<rparr>) [] slab_vl) \<and>
   fst (initialize_voronoicell bounds_init slab [] slab_vl)"
  using initialize_voronoicell_no_cell [OF walled_off(1), of bounds_init "[]"
      "\<lambda>con c ijk q sti stj stk x y z. (True, con, c)"]
    initialize_voronoicell_no_cell [OF slab_stored, of bounds_init "[]"] walled_off slab_walls
  by simp

text \<open>
  C9. With no walls, \<open>point_inside_walls\<close> is true at every point (the empty conjunction),
  \<open>apply_walls\<close> returns true and hands the cell back untouched, and
  \<open>initialize_voronoicell\<close> succeeds with the cell exactly as initialised.
\<close>

theorem empty_wall_list:
  "point_inside_walls [] x y z \<and> apply_walls [] c x y z = (True, c) \<and>
   (case initialize_voronoicell c_init (con\<lparr>walls := []\<rparr>) c vl of
      (ok, con', c', sti, stj, stk) \<Rightarrow> ok \<and> c' = container_box c_init con vl c)"
  using initialize_voronoicell_walls [of c_init "con\<lparr>walls := []\<rparr>" c vl]
  by (auto simp: container_box_def source_x_def source_y_def source_z_def)

section \<open>The weighted container\<close>

lemma r_init_fields:
  "r_rad (r_init con ijk s) = radius con ijk s * radius con ijk s"
  "r_mul (r_init con ijk s) =
     1 + (radius con ijk s * radius con ijk s - max_radius con * max_radius con)
         / ((max_radius con + radius con ijk s) * (max_radius con + radius con ijk s))"
  "p (r_init con ijk s) = p con"
  "max_radius (r_init con ijk s) = max_radius con"
  by (simp_all add: r_init_def radius_def Let_def)

lemma two_spheres_radii:
  "radius two_spheres 0 0 = 1" "radius two_spheres 0 1 = 2" "radius two_spheres 0 2 = 0"
  "max_radius two_spheres = 2"
  by (simp_all add: radius_def two_spheres_def)

lemma two_spheres_stored:
  "radius_stored two_spheres 0 0" "radius_stored two_spheres 0 1" "radius_stored two_spheres 0 2"
  by (simp_all add: radius_stored_def two_spheres_def)

text \<open>
  C2. After \<open>r_init\<close> for a source particle of radius \<open>r\<^sub>s\<close>, \<open>r_scale\<close> turns the raw squared
  offset \<open>lrs\<close> of a candidate of radius \<open>r\<^sub>t\<close> into \<open>lrs + r\<^sub>s\<^sup>2 - r\<^sub>t\<^sup>2\<close>, and \<open>r_cutoff\<close>
  returns \<open>r_mul * lrs\<close> with \<open>r_mul = 1 + (r\<^sub>s\<^sup>2 - M\<^sup>2) / (M + r\<^sub>s)\<^sup>2\<close>, where \<open>M\<close> is the
  container's \<^verbatim>\<open>max_radius\<close>.
\<close>

theorem r_scale_r_cutoff:
  assumes "radius_stored con ijk s" and "radius_stored con jjk q"
  shows "r_scale (r_init con ijk s) lrs jjk q
           = lrs + (radius con ijk s)\<^sup>2 - (radius con jjk q)\<^sup>2 \<and>
         r_cutoff (r_init con ijk s) lrs = r_mul (r_init con ijk s) * lrs \<and>
         r_mul (r_init con ijk s) =
           1 + ((radius con ijk s)\<^sup>2 - (max_radius con)\<^sup>2) / (max_radius con + radius con ijk s)\<^sup>2"
  by (simp add: r_scale_def r_cutoff_def r_init_fields radius_def [symmetric] power2_eq_square)

text \<open>
  Radius \<open>1\<close> at the origin against radius \<open>2\<close> at \<open>(3, 0, 0)\<close>, with \<open>lrs = 9\<close> and
  \<open>M = 2\<close>: the cut value is \<open>9 + 1 - 4 = 6\<close> and the cutoff is \<open>(2/3) * 9 = 6\<close>.
\<close>

theorem r_scale_r_cutoff_witness:
  "radius_stored two_spheres 0 0 \<and> radius_stored two_spheres 0 1 \<and>
   r_scale (r_init two_spheres 0 0) 9 0 1 = 6 \<and> r_cutoff (r_init two_spheres 0 0) 9 = 6"
  using r_scale_r_cutoff [OF two_spheres_stored(1,2), of 9] two_spheres_stored
  by (simp add: two_spheres_radii)

subsection \<open>The multiplier in double arithmetic\<close>








text \<open>
  What rounding does to the multiplier, in the small format: for the positive radius
  \<open>1/1024\<close> under \<open>M = 64\<close> the square of the radius rounds to \<open>0\<close>, the quotient to
  \<open>-1\<close> and the multiplier to \<open>0\<close>; and under \<open>M = 1024\<close> the square of \<open>M\<close> is beyond
  the largest finite number, so there is no finite multiplier.
\<close>

lemma grain_double:
  "r_init_double rnd_fix 65536 grain 0 0 = Some (grain\<lparr>r_rad := 0, r_mul := 0\<rparr>)"
  "r_init_double rnd_fix 65536 (grain\<lparr>max_radius := 1024\<rparr>) 0 0 = None"
  by (simp_all add: r_init_double_def fl_def fl_div_def rnd_fix_def grain_def Let_def)




section \<open>Neighbouring blocks\<close>

lemma adjusted_index_target:
  assumes "0 < n" and "periodic \<longrightarrow> 0 \<le> cu + e \<and> cu + e < 3 * n"
  shows "adjusted_index periodic n cu e
           = axis_target periodic n cu e + (if periodic then n - cu else 0)"
proof (cases periodic)
  case False
  then show ?thesis by (simp add: adjusted_index_def axis_target_def)
next
  case True
  with assms have range: "0 \<le> cu + e" "cu + e < 3 * n" by simp_all
  consider (below) "cu + e < n" | (inside) "n \<le> cu + e" "cu + e < 2 * n" | (above) "2 * n \<le> cu + e"
    by linarith
  then show ?thesis
  proof cases
    case below
    have "(cu + e - n) mod n = cu + e"
      by (rule int_mod_pos_eq [where q = "- 1"]) (use range below in simp_all)
    with True below show ?thesis
      by (simp only: adjusted_index_def axis_target_def unwrapped_box_def) simp
  next
    case inside
    have "(cu + e - n) mod n = cu + e - n"
      by (rule int_mod_pos_eq [where q = 0]) (use inside in simp_all)
    with True inside show ?thesis
      by (simp only: adjusted_index_def axis_target_def unwrapped_box_def) simp
  next
    case above
    have "(cu + e - n) mod n = cu + e - 2 * n"
      by (rule int_mod_pos_eq [where q = 1]) (use above range in simp_all)
    with True above assms(1) show ?thesis
      by (simp only: adjusted_index_def axis_target_def unwrapped_box_def) simp
  qed
qed

lemma axis_shift_cases:
  "axis_shift periodic n cu e L q =
     (if periodic then (if cu + e < n then - L else if 2 * n \<le> cu + e then L else 0) else q)"
  by (simp add: axis_shift_def unwrapped_box_def)

lemma axis_step:
  assumes "axis_fits periodic n cu e"
  shows "(if periodic
          then (if int32 (cu + e) < n then (int32 (e + n), - L)
                else if int32 (cu + e) \<ge> int32 (push_bit 1 n) then (int32 (e - n), L)
                else (e, 0))
          else (e, q))
         = (adjusted_index periodic n cu e, axis_shift periodic n cu e L q)"
proof (cases periodic)
  case False
  then show ?thesis by (simp add: adjusted_index_def axis_shift_def)
next
  case True
  with assms have fits: "in_int32 (cu + e)" "n \<le> cu + e \<Longrightarrow> in_int32 (2 * n)"
    "in_int32 (adjusted_index True n cu e)"
    by (simp_all add: axis_fits_def)
  have s: "int32 (cu + e) = cu + e" by (rule int32_id [OF fits(1)])
  have a: "int32 (adjusted_index True n cu e) = adjusted_index True n cu e"
    by (rule int32_id [OF fits(3)])
  have d: "int32 (push_bit 1 n) = 2 * n" if "n \<le> cu + e"
    using int32_id [OF fits(2) [OF that]] by (simp add: push_bit_eq_mult mult.commute)
  show ?thesis
  proof (cases "cu + e < n")
    case below: True
    with a have "int32 (e + n) = e + n" by (simp add: adjusted_index_def)
    with True below show ?thesis by (simp add: s adjusted_index_def axis_shift_cases)
  next
    case notbelow: False
    then have d': "int32 (push_bit 1 n) = 2 * n" "int32 (n * 2) = 2 * n"
      using d by (simp_all add: push_bit_eq_mult)
    show ?thesis
    proof (cases "2 * n \<le> cu + e")
      case above: True
      with a notbelow have "int32 (e - n) = e - n" by (simp add: adjusted_index_def)
      with True notbelow above show ?thesis
        by (simp add: s d' adjusted_index_def axis_shift_cases)
    next
      case False
      with True notbelow show ?thesis by (simp add: s d' adjusted_index_def axis_shift_cases)
    qed
  qed
qed

lemma region_index_eq:
  assumes x: "axis_fits (xperiodic con) (nx con) (cui con) ei"
    and y: "axis_fits (yperiodic con) (ny con) (cuj con) ej"
    and z: "axis_fits (zperiodic con) (nz con) (cuk con) ek"
  shows "region_index con ei ej ek qx qy qz =
     (int32 (int32 (cuijk con + adjusted_index (xperiodic con) (nx con) (cui con) ei)
        + int32 (nx con * int32 (adjusted_index (yperiodic con) (ny con) (cuj con) ej
                    + int32 (ny con * adjusted_index (zperiodic con) (nz con) (cuk con) ek)))),
      axis_shift (xperiodic con) (nx con) (cui con) ei (bx con - ax con) qx,
      axis_shift (yperiodic con) (ny con) (cuj con) ej (by' con - ay con) qy,
      axis_shift (zperiodic con) (nz con) (cuk con) ek (bz con - az con) qz)"
  unfolding region_index_def axis_step [OF x] axis_step [OF y] axis_step [OF z]
  by (simp only: Let_def case_prod_conv)

lemma initialize_voronoicell_state:
  assumes "initialize_voronoicell c_init con0 c vl = (True, con, c', sti, stj, stk)"
  shows "cui con = vl_i vl" "cuj con = vl_j vl" "cuk con = vl_k vl"
    "cuijk con =
       int32 (int32 (vl_ijk vl - start_index (xperiodic con0) (nx con0) (vl_i vl))
              - int32 (nx con0 * int32 (start_index (yperiodic con0) (ny con0) (vl_j vl)
                         + int32 (ny con0 * start_index (zperiodic con0) (nz con0) (vl_k vl)))))"
    "nx con = nx con0" "ny con = ny con0" "nz con = nz con0"
    "xperiodic con = xperiodic con0" "yperiodic con = yperiodic con0" "zperiodic con = zperiodic con0"
    "ax con = ax con0" "bx con = bx con0" "ay con = ay con0" "by' con = by' con0"
    "az con = az con0" "bz con = bz con0"
proof -
  let ?w = "apply_walls (walls con0) (container_box c_init con0 vl c)
              (source_x con0 vl) (source_y con0 vl) (source_z con0 vl)"
  from assms have ok: "fst ?w"
    unfolding initialize_voronoicell_eq Let_def by (cases "fst ?w") simp_all
  from assms have "fst (snd (initialize_voronoicell c_init con0 c vl)) = con" by simp
  then have con: "con = con0\<lparr>cux := source_x con0 vl, cuy := source_y con0 vl,
      cuz := source_z con0 vl, cui := vl_i vl, cuj := vl_j vl, cuk := vl_k vl,
      cuijk :=
        int32 (int32 (vl_ijk vl - start_index (xperiodic con0) (nx con0) (vl_i vl))
               - int32 (nx con0 * int32 (start_index (yperiodic con0) (ny con0) (vl_j vl)
                          + int32 (ny con0 * start_index (zperiodic con0) (nz con0) (vl_k vl)))))\<rparr>"
    unfolding initialize_voronoicell_eq Let_def if_P [OF ok] start_index_def by simp
  show "cui con = vl_i vl" "cuj con = vl_j vl" "cuk con = vl_k vl"
    "cuijk con =
       int32 (int32 (vl_ijk vl - start_index (xperiodic con0) (nx con0) (vl_i vl))
              - int32 (nx con0 * int32 (start_index (yperiodic con0) (ny con0) (vl_j vl)
                         + int32 (ny con0 * start_index (zperiodic con0) (nz con0) (vl_k vl)))))"
    "nx con = nx con0" "ny con = ny con0" "nz con = nz con0"
    "xperiodic con = xperiodic con0" "yperiodic con = yperiodic con0" "zperiodic con = zperiodic con0"
    "ax con = ax con0" "bx con = bx con0" "ay con = ay con0" "by' con = by' con0"
    "az con = az con0" "bz con = bz con0"
    unfolding con by (simp_all del: if_split split del: if_split)
qed

lemma axis_frame:
  assumes "0 < n" and "0 \<le> cu + e \<and> cu + e < 3 * n" and "box * of_int n = b - a"
    and "in_box a box (axis_target True n cu e) x"
  shows "in_box a box (unwrapped_box n cu e) (x + axis_shift True n cu e (b - a) q)"
proof -
  from assms have range: "0 \<le> cu + e" "cu + e < 3 * n" by simp_all
  consider (below) "cu + e < n" | (inside) "n \<le> cu + e" "cu + e < 2 * n" | (above) "2 * n \<le> cu + e"
    by linarith
  then show ?thesis
  proof cases
    case below
    have t: "(cu + e - n) mod n = cu + e"
      by (rule int_mod_pos_eq [where q = "- 1"]) (use range below in simp_all)
    have s: "axis_shift True n cu e (b - a) q = - (box * of_int n)"
      using below by (simp add: axis_shift_def unwrapped_box_def assms(3))
    from assms(4) show ?thesis
      unfolding in_box_def axis_target_def unwrapped_box_def s if_True t
      by (simp add: algebra_simps)
  next
    case inside
    have t: "(cu + e - n) mod n = cu + e - n"
      by (rule int_mod_pos_eq [where q = 0]) (use inside in simp_all)
    have s: "axis_shift True n cu e (b - a) q = 0"
      using inside by (simp add: axis_shift_def unwrapped_box_def)
    from assms(4) show ?thesis
      unfolding in_box_def axis_target_def unwrapped_box_def s if_True t
      by simp
  next
    case above
    have t: "(cu + e - n) mod n = cu + e - 2 * n"
      by (rule int_mod_pos_eq [where q = 1]) (use above range in simp_all)
    have s: "axis_shift True n cu e (b - a) q = box * of_int n"
      using above assms(1) by (simp add: axis_shift_def unwrapped_box_def assms(3))
    from assms(4) show ?thesis
      unfolding in_box_def axis_target_def unwrapped_box_def s if_True t
      by (simp add: algebra_simps)
  qed
qed


lemma axis_target_range:
  "0 < n \<Longrightarrow> 0 \<le> axis_target True n cu e \<and> axis_target True n cu e < n"
  by (simp add: axis_target_def)

text \<open>
  C6, as the code has it. Let the container be as a successful \<open>initialize_voronoicell\<close>
  leaves it (one that returned true, so that \<^verbatim>\<open>cuijk\<close> has been written) for a particle
  in box \<^verbatim>\<open>(vl.i, vl.j, vl.k)\<close>, with linear index \<^verbatim>\<open>vl.ijk = vl.i + nx (vl.j + ny vl.k)\<close>,
  of a grid with positive \<open>nx, ny, nz\<close>; let the block index
  satisfy \<open>0 \<le> cu + e < 3 n\<close> on every periodic axis (at most one period away); and let
  no \<^verbatim>\<open>int\<close> value of the index arithmetic leave the 32-bit range. Then \<open>region_index\<close>
  returns the linear index \<open>t\<^sub>x + nx (t\<^sub>y + ny t\<^sub>z)\<close> of the target box, where on a
  periodic axis \<open>t\<close> is the unwrapped box \<open>cu + e - n\<close> wrapped into \<open>0 .. n - 1\<close>, and on a
  non-periodic axis \<open>t\<close> is \<open>e\<close> itself: nothing is clamped. On a periodic axis the
  displacement written is \<open>- (b - a)\<close>, \<open>0\<close> or \<open>b - a\<close> as the unwrapped box lies below,
  inside or above the grid, and adding it to a coordinate in the target box gives a
  coordinate in the unwrapped box (for boxes of side \<open>(b - a) / n\<close>), the image in the
  frame of the particle; on a non-periodic axis the displacement is left as it was passed
  in.
\<close>

theorem region_index_target:
  assumes init: "initialize_voronoicell c_init con0 c vl = (True, con, c', sti, stj, stk)"
    and vl: "vl_ijk vl = vl_i vl + nx con0 * (vl_j vl + ny con0 * vl_k vl)"
    and grid: "0 < nx con0" "0 < ny con0" "0 < nz con0"
    and rx: "xperiodic con0 \<longrightarrow> 0 \<le> vl_i vl + ei \<and> vl_i vl + ei < 3 * nx con0"
    and ry: "yperiodic con0 \<longrightarrow> 0 \<le> vl_j vl + ej \<and> vl_j vl + ej < 3 * ny con0"
    and rz: "zperiodic con0 \<longrightarrow> 0 \<le> vl_k vl + ek \<and> vl_k vl + ek < 3 * nz con0"
    and fits: "no_int_overflow con0 vl ei ej ek"
  shows "region_index con ei ej ek qx qy qz =
           (axis_target (xperiodic con0) (nx con0) (vl_i vl) ei
              + nx con0 * (axis_target (yperiodic con0) (ny con0) (vl_j vl) ej
                           + ny con0 * axis_target (zperiodic con0) (nz con0) (vl_k vl) ek),
            axis_shift (xperiodic con0) (nx con0) (vl_i vl) ei (bx con0 - ax con0) qx,
            axis_shift (yperiodic con0) (ny con0) (vl_j vl) ej (by' con0 - ay con0) qy,
            axis_shift (zperiodic con0) (nz con0) (vl_k vl) ek (bz con0 - az con0) qz) \<and>
         (xperiodic con0 \<longrightarrow>
            0 \<le> axis_target True (nx con0) (vl_i vl) ei \<and>
            axis_target True (nx con0) (vl_i vl) ei < nx con0 \<and>
            (boxx con0 * of_int (nx con0) = bx con0 - ax con0 \<longrightarrow>
               (\<forall>x. in_box (ax con0) (boxx con0) (axis_target True (nx con0) (vl_i vl) ei) x \<longrightarrow>
                    in_box (ax con0) (boxx con0) (unwrapped_box (nx con0) (vl_i vl) ei)
                      (x + axis_shift True (nx con0) (vl_i vl) ei (bx con0 - ax con0) qx)))) \<and>
         (yperiodic con0 \<longrightarrow>
            0 \<le> axis_target True (ny con0) (vl_j vl) ej \<and>
            axis_target True (ny con0) (vl_j vl) ej < ny con0 \<and>
            (boxy con0 * of_int (ny con0) = by' con0 - ay con0 \<longrightarrow>
               (\<forall>y. in_box (ay con0) (boxy con0) (axis_target True (ny con0) (vl_j vl) ej) y \<longrightarrow>
                    in_box (ay con0) (boxy con0) (unwrapped_box (ny con0) (vl_j vl) ej)
                      (y + axis_shift True (ny con0) (vl_j vl) ej (by' con0 - ay con0) qy)))) \<and>
         (zperiodic con0 \<longrightarrow>
            0 \<le> axis_target True (nz con0) (vl_k vl) ek \<and>
            axis_target True (nz con0) (vl_k vl) ek < nz con0 \<and>
            (boxz con0 * of_int (nz con0) = bz con0 - az con0 \<longrightarrow>
               (\<forall>z. in_box (az con0) (boxz con0) (axis_target True (nz con0) (vl_k vl) ek) z \<longrightarrow>
                    in_box (az con0) (boxz con0) (unwrapped_box (nz con0) (vl_k vl) ek)
                      (z + axis_shift True (nz con0) (vl_k vl) ek (bz con0 - az con0) qz))))"
proof -
  note st = initialize_voronoicell_state [OF init]
  define sx where "sx = start_index (xperiodic con0) (nx con0) (vl_i vl)"
  define sy where "sy = start_index (yperiodic con0) (ny con0) (vl_j vl)"
  define sz where "sz = start_index (zperiodic con0) (nz con0) (vl_k vl)"
  define e1 where "e1 = adjusted_index (xperiodic con0) (nx con0) (vl_i vl) ei"
  define e2 where "e2 = adjusted_index (yperiodic con0) (ny con0) (vl_j vl) ej"
  define e3 where "e3 = adjusted_index (zperiodic con0) (nz con0) (vl_k vl) ek"
  define cc where "cc = vl_ijk vl - sx - nx con0 * (sy + ny con0 * sz)"
  from fits have i: "in_int32 (ny con0 * sz)" "in_int32 (sy + ny con0 * sz)"
    "in_int32 (nx con0 * (sy + ny con0 * sz))" "in_int32 (vl_ijk vl - sx)" "in_int32 cc"
    and a: "axis_fits (xperiodic con0) (nx con0) (vl_i vl) ei"
    "axis_fits (yperiodic con0) (ny con0) (vl_j vl) ej"
    "axis_fits (zperiodic con0) (nz con0) (vl_k vl) ek"
    and r: "in_int32 (ny con0 * e3)" "in_int32 (e2 + ny con0 * e3)"
    "in_int32 (nx con0 * (e2 + ny con0 * e3))" "in_int32 (cc + e1)"
    "in_int32 (cc + e1 + nx con0 * (e2 + ny con0 * e3))"
    unfolding no_int_overflow_def Let_def sx_def sy_def sz_def e1_def e2_def e3_def cc_def
    by simp_all
  have cuijk: "cuijk con = cc"
    unfolding st(4) sx_def [symmetric] sy_def [symmetric] sz_def [symmetric]
    by (simp only: int32_id [OF i(1)] int32_id [OF i(2)] int32_id [OF i(3)]
        int32_id [OF i(4)] int32_id [OF i(5) [unfolded cc_def]] cc_def)
  have a': "axis_fits (xperiodic con) (nx con) (cui con) ei"
    "axis_fits (yperiodic con) (ny con) (cuj con) ej"
    "axis_fits (zperiodic con) (nz con) (cuk con) ek"
    using a by (simp_all only: st)
  have raw: "region_index con ei ej ek qx qy qz =
     (cc + e1 + nx con0 * (e2 + ny con0 * e3),
      axis_shift (xperiodic con0) (nx con0) (vl_i vl) ei (bx con0 - ax con0) qx,
      axis_shift (yperiodic con0) (ny con0) (vl_j vl) ej (by' con0 - ay con0) qy,
      axis_shift (zperiodic con0) (nz con0) (vl_k vl) ek (bz con0 - az con0) qz)"
    unfolding region_index_eq [OF a'] cuijk st
      e1_def [symmetric] e2_def [symmetric] e3_def [symmetric]
    by (simp only: int32_id [OF r(1)] int32_id [OF r(2)] int32_id [OF r(3)]
        int32_id [OF r(4)] int32_id [OF r(5)])
  define tx where "tx = axis_target (xperiodic con0) (nx con0) (vl_i vl) ei"
  define ty where "ty = axis_target (yperiodic con0) (ny con0) (vl_j vl) ej"
  define tz where "tz = axis_target (zperiodic con0) (nz con0) (vl_k vl) ek"
  define dx where "dx = (if xperiodic con0 then nx con0 - vl_i vl else 0)"
  define dy where "dy = (if yperiodic con0 then ny con0 - vl_j vl else 0)"
  define dz where "dz = (if zperiodic con0 then nz con0 - vl_k vl else 0)"
  have e: "e1 = tx + dx" "e2 = ty + dy" "e3 = tz + dz"
    unfolding e1_def e2_def e3_def tx_def ty_def tz_def dx_def dy_def dz_def
    by (rule adjusted_index_target [OF grid(1) rx] adjusted_index_target [OF grid(2) ry]
        adjusted_index_target [OF grid(3) rz])+
  have s: "sx = vl_i vl + dx" "sy = vl_j vl + dy" "sz = vl_k vl + dz"
    by (simp_all add: sx_def sy_def sz_def dx_def dy_def dz_def start_index_def)
  have "cc + e1 + nx con0 * (e2 + ny con0 * e3) = tx + nx con0 * (ty + ny con0 * tz)"
    unfolding cc_def e s vl by (simp add: algebra_simps)
  with raw have index: "region_index con ei ej ek qx qy qz =
           (axis_target (xperiodic con0) (nx con0) (vl_i vl) ei
              + nx con0 * (axis_target (yperiodic con0) (ny con0) (vl_j vl) ej
                           + ny con0 * axis_target (zperiodic con0) (nz con0) (vl_k vl) ek),
            axis_shift (xperiodic con0) (nx con0) (vl_i vl) ei (bx con0 - ax con0) qx,
            axis_shift (yperiodic con0) (ny con0) (vl_j vl) ej (by' con0 - ay con0) qy,
            axis_shift (zperiodic con0) (nz con0) (vl_k vl) ek (bz con0 - az con0) qz)"
    by (simp only: tx_def ty_def tz_def)
  have fx: "xperiodic con0 \<longrightarrow>
            0 \<le> axis_target True (nx con0) (vl_i vl) ei \<and>
            axis_target True (nx con0) (vl_i vl) ei < nx con0 \<and>
            (boxx con0 * of_int (nx con0) = bx con0 - ax con0 \<longrightarrow>
               (\<forall>x. in_box (ax con0) (boxx con0) (axis_target True (nx con0) (vl_i vl) ei) x \<longrightarrow>
                    in_box (ax con0) (boxx con0) (unwrapped_box (nx con0) (vl_i vl) ei)
                      (x + axis_shift True (nx con0) (vl_i vl) ei (bx con0 - ax con0) qx)))"
    using axis_target_range [OF grid(1)] axis_frame [OF grid(1)] rx by blast
  have fy: "yperiodic con0 \<longrightarrow>
            0 \<le> axis_target True (ny con0) (vl_j vl) ej \<and>
            axis_target True (ny con0) (vl_j vl) ej < ny con0 \<and>
            (boxy con0 * of_int (ny con0) = by' con0 - ay con0 \<longrightarrow>
               (\<forall>y. in_box (ay con0) (boxy con0) (axis_target True (ny con0) (vl_j vl) ej) y \<longrightarrow>
                    in_box (ay con0) (boxy con0) (unwrapped_box (ny con0) (vl_j vl) ej)
                      (y + axis_shift True (ny con0) (vl_j vl) ej (by' con0 - ay con0) qy)))"
    using axis_target_range [OF grid(2)] axis_frame [OF grid(2)] ry by blast
  have fz: "zperiodic con0 \<longrightarrow>
            0 \<le> axis_target True (nz con0) (vl_k vl) ek \<and>
            axis_target True (nz con0) (vl_k vl) ek < nz con0 \<and>
            (boxz con0 * of_int (nz con0) = bz con0 - az con0 \<longrightarrow>
               (\<forall>z. in_box (az con0) (boxz con0) (axis_target True (nz con0) (vl_k vl) ek) z \<longrightarrow>
                    in_box (az con0) (boxz con0) (unwrapped_box (nz con0) (vl_k vl) ek)
                      (z + axis_shift True (nz con0) (vl_k vl) ek (bz con0 - az con0) qz)))"
    using axis_target_range [OF grid(3)] axis_frame [OF grid(3)] rz by blast
  from index fx fy fz show ?thesis by (intro conjI)
qed

lemma slab_initialized:
  "initialize_voronoicell bounds_init slab [] slab_vl =
     (True,
      slab\<lparr>cux := 1 / 4, cuy := 1 / 2, cuz := 3 / 4, cui := 0, cuj := 1, cuk := 1, cuijk := - 2\<rparr>,
      [- (1 / 2), 1 / 4, - (1 / 2), 1 / 2, - (3 / 4), 1 / 4], 2, 1, 1)"
  unfolding initialize_voronoicell_eq Let_def slab_walls
  by (simp add: slab_source) (simp add: slab_def slab_vl_def int32_def)

lemma slab_current_eq:
  "slab_current =
     slab\<lparr>cux := 1 / 4, cuy := 1 / 2, cuz := 3 / 4, cui := 0, cuj := 1, cuk := 1, cuijk := - 2\<rparr>"
  by (simp add: slab_current_def slab_initialized)

lemma slab_current_fields:
  "nx slab_current = 2" "ny slab_current = 2" "nz slab_current = 2"
  "xperiodic slab_current = True" "yperiodic slab_current = False" "zperiodic slab_current = False"
  "ax slab_current = 0" "bx slab_current = 1" "ay slab_current = 0" "by' slab_current = 1"
  "az slab_current = 0" "bz slab_current = 1"
  "cui slab_current = 0" "cuj slab_current = 1" "cuk slab_current = 1" "cuijk slab_current = - 2"
  by (simp_all add: slab_current_eq slab_def)

text \<open>
  In the slab the particle's box is \<open>(0, 1, 1)\<close>. The block \<open>(1, 1, 0)\<close> stands for the
  unwrapped box \<open>-1\<close> in \<open>x\<close>, which wraps to box \<open>1\<close> with displacement \<open>-1\<close>: the index
  is \<open>1 + 2 (1 + 2 * 0) = 3\<close>, and \<open>3/4\<close> in box \<open>1\<close> becomes \<open>-1/4\<close> in box \<open>-1\<close>.
\<close>

theorem region_index_target_witness:
  "fst (initialize_voronoicell bounds_init slab [] slab_vl) \<and>
   no_int_overflow slab slab_vl 1 1 0 \<and>
   region_index slab_current 1 1 0 0 0 0 = (3, - 1, 0, 0) \<and>
   in_box 0 (1 / 2) 1 (3 / 4) \<and> in_box 0 (1 / 2) (- 1) (3 / 4 - 1)"
proof -
  have g: "vl_ijk slab_vl = vl_i slab_vl + nx slab * (vl_j slab_vl + ny slab * vl_k slab_vl)"
    "0 < nx slab" "0 < ny slab" "0 < nz slab"
    "xperiodic slab \<longrightarrow> 0 \<le> vl_i slab_vl + 1 \<and> vl_i slab_vl + 1 < 3 * nx slab"
    "yperiodic slab \<longrightarrow> 0 \<le> vl_j slab_vl + 1 \<and> vl_j slab_vl + 1 < 3 * ny slab"
    "zperiodic slab \<longrightarrow> 0 \<le> vl_k slab_vl + 0 \<and> vl_k slab_vl + 0 < 3 * nz slab"
    by (simp_all add: slab_def slab_vl_def)
  have o: "no_int_overflow slab slab_vl 1 1 0"
    by (simp add: no_int_overflow_def axis_fits_def start_index_def adjusted_index_def
        in_int32_def slab_def slab_vl_def)
  have v: "axis_target True 2 0 1 = 1" "unwrapped_box 2 0 1 = - 1"
    "axis_shift True 2 0 1 1 0 = - 1"
    by (simp_all add: axis_target_def axis_shift_def unwrapped_box_def)
  have f: "xperiodic slab = True" "yperiodic slab = False" "zperiodic slab = False"
    "nx slab = 2" "ny slab = 2" "nz slab = 2" "vl_i slab_vl = 0" "vl_j slab_vl = 1" "vl_k slab_vl = 1"
    "ax slab = 0" "bx slab = 1" "ay slab = 0" "by' slab = 1" "az slab = 0" "bz slab = 1"
    "boxx slab = 1 / 2"
    by (simp_all add: slab_def slab_vl_def)
  note t = region_index_target [OF slab_initialized g o, of 0 0 0, unfolded f]
  have i: "region_index
     (slab\<lparr>cux := 1 / 4, cuy := 1 / 2, cuz := 3 / 4, cui := 0, cuj := 1, cuk := 1, cuijk := - 2\<rparr>)
     1 1 0 0 0 0 = (3, - 1, 0, 0)"
    using t by (simp add: v) (simp add: axis_target_def axis_shift_def)
  have b: "in_box 0 (1 / 2) 1 (3 / 4)" by (simp add: in_box_def)
  have "\<forall>x. in_box 0 (1 / 2) 1 x \<longrightarrow> in_box 0 (1 / 2) (- 1) (x - 1)"
    using t by (simp add: v)
  with b have "in_box 0 (1 / 2) (- 1) (3 / 4 - 1)" by blast
  with i b o show ?thesis by (simp add: slab_current_eq slab_initialized)
qed

text \<open>
  C6 as stated fails in the slab. On the non-periodic \<open>y\<close> axis the index \<open>3\<close> lies outside
  the grid; it is not clamped to \<open>1\<close>, and the result \<open>10\<close> is not the index of any of the
  \<open>8\<close> boxes, where clamping would give \<open>6\<close>. On the periodic \<open>x\<close> axis the index \<open>6\<close> is
  two periods above the particle's box, and subtracting one period is not enough: the
  result is \<open>8\<close> where wrapping would give \<open>6\<close>.
\<close>

theorem region_index_no_clamp:
  "fst (initialize_voronoicell bounds_init slab [] slab_vl) \<and>
   nx slab * ny slab * nz slab = 8 \<and>
   region_index slab_current 2 3 1 0 0 0 = (10, 0, 0, 0) \<and>
   clamped_region_index slab_current 2 3 1 = 6 \<and>
   region_index slab_current 6 1 1 0 0 0 = (8, 1, 0, 0) \<and>
   clamped_region_index slab_current 6 1 1 = 6"
proof -
  have a: "region_index slab_current 2 3 1 0 0 0 = (10, 0, 0, 0)"
    and b: "region_index slab_current 6 1 1 0 0 0 = (8, 1, 0, 0)"
    by (simp_all add: region_index_def slab_current_fields push_bit_eq_mult int32_def)
  have c: "clamped_region_index slab_current 2 3 1 = 6"
    and d: "clamped_region_index slab_current 6 1 1 = 6"
    by (simp_all add: clamped_region_index_def clamped_axis_def unwrapped_box_def
        slab_current_fields)
  have e: "nx slab * ny slab * nz slab = 8" by (simp add: slab_def)
  from a b c d e show ?thesis by (simp add: slab_initialized)
qed

text \<open>
  Why the two conditions are needed. An index of \<open>2\<^sup>3\<^sup>0\<close> on the non-periodic \<open>y\<close> axis makes
  the linear index wrap around. And when the walls remove the cell,
  \<open>initialize_voronoicell\<close> returns before it writes \<^verbatim>\<open>cuijk\<close>: with the value \<open>0\<close> left
  there, the block \<open>(1, 1, 0)\<close> gives \<open>5\<close>, not \<open>3\<close>.
\<close>

lemma region_index_wraps:
  "region_index slab_current 2 1073741824 1 0 0 0 = (- 2147483644, 0, 0, 0)"
  by (simp add: region_index_def slab_current_fields push_bit_eq_mult int32_def)

lemma region_index_stale:
  "initialize_voronoicell bounds_init (slab\<lparr>walls := [x_wall (- 1)]\<rparr>) [] slab_vl
     = (False,
        slab\<lparr>walls := [x_wall (- 1)], cux := 1 / 4, cuy := 1 / 2, cuz := 3 / 4,
             cui := 0, cuj := 1, cuk := 1\<rparr>,
        [- (1 / 2), - (5 / 4), - (1 / 2), 1 / 2, - (3 / 4), 1 / 4], 2, 1, 1)"
  "region_index
     (slab\<lparr>walls := [x_wall (- 1)], cux := 1 / 4, cuy := 1 / 2, cuz := 3 / 4,
           cui := 0, cuj := 1, cuk := 1\<rparr>) 1 1 0 0 0 0 = (5, - 1, 0, 0)"
proof -
  show "initialize_voronoicell bounds_init (slab\<lparr>walls := [x_wall (- 1)]\<rparr>) [] slab_vl
     = (False,
        slab\<lparr>walls := [x_wall (- 1)], cux := 1 / 4, cuy := 1 / 2, cuz := 3 / 4,
             cui := 0, cuj := 1, cuk := 1\<rparr>,
        [- (1 / 2), - (5 / 4), - (1 / 2), 1 / 2, - (3 / 4), 1 / 4], 2, 1, 1)"
    unfolding initialize_voronoicell_eq Let_def
    by (simp add: container_box_def bounds_init_def axis_lower_def axis_upper_def source_x_def
        source_y_def source_z_def slab_def slab_vl_def x_wall_def)
  show "region_index
     (slab\<lparr>walls := [x_wall (- 1)], cux := 1 / 4, cuy := 1 / 2, cuz := 3 / 4,
           cui := 0, cuj := 1, cuk := 1\<rparr>) 1 1 0 0 0 0 = (5, - 1, 0, 0)"
    by (simp add: region_index_def slab_def push_bit_eq_mult int32_def)
qed

section \<open>The point test\<close>

lemma point_inside_walls_all:
  "point_inside_walls ws x y z \<longleftrightarrow> (\<forall>w\<in>set ws. point_inside w x y z)"
  by (induction ws) auto

lemma point_inside_walls_foldr:
  "point_inside_walls ws x y z = foldr (\<lambda>w b. point_inside w x y z \<and> b) ws True"
  by (induction ws) auto

text \<open>
  C3. The container's point test is true exactly when the point, remapped on the periodic
  axes, lies in \<open>[ax, bx] \<times> [ay, by] \<times> [az, bz]\<close> and every wall of the wall list reports
  it inside. \<open>point_inside_walls\<close> is the conjunction of the walls' \<open>point_inside\<close>, taken
  in the order of the list.
\<close>

theorem point_inside_conjunction:
  "(point_inside_container con x y z \<longleftrightarrow>
      (let x1 = wrap_axis (xperiodic con) (ax con) (bx con) x;
           y1 = wrap_axis (yperiodic con) (ay con) (by' con) y;
           z1 = wrap_axis (zperiodic con) (az con) (bz con) z
       in ax con \<le> x1 \<and> x1 \<le> bx con \<and> ay con \<le> y1 \<and> y1 \<le> by' con \<and>
          az con \<le> z1 \<and> z1 \<le> bz con \<and> (\<forall>w\<in>set (walls con). point_inside w x1 y1 z1))) \<and>
   (point_inside_walls ws x y z \<longleftrightarrow> (\<forall>w\<in>set ws. point_inside w x y z)) \<and>
   point_inside_walls ws x y z = foldr (\<lambda>w b. point_inside w x y z \<and> b) ws True"
proof -
  have "point_inside_container con x y z \<longleftrightarrow>
      (let x1 = wrap_axis (xperiodic con) (ax con) (bx con) x;
           y1 = wrap_axis (yperiodic con) (ay con) (by' con) y;
           z1 = wrap_axis (zperiodic con) (az con) (bz con) z
       in ax con \<le> x1 \<and> x1 \<le> bx con \<and> ay con \<le> y1 \<and> y1 \<le> by' con \<and>
          az con \<le> z1 \<and> z1 \<le> bz con \<and> (\<forall>w\<in>set (walls con). point_inside w x1 y1 z1))"
    unfolding point_inside_container_def Let_def point_inside_walls_all by auto
  with point_inside_walls_all [of ws x y z] point_inside_walls_foldr [of ws x y z]
  show ?thesis by blast
qed

text \<open>
  In the slab with its wall \<open>x \<le> 1/2\<close>: \<open>x = 5/4\<close> is remapped to \<open>1/4\<close> and is inside;
  \<open>x = 3/4\<close> fails the wall; \<open>y = 3/2\<close> on the non-periodic \<open>y\<close> axis is outside the box.
\<close>

lemma slab_wrap: "wrap_axis (xperiodic slab) (ax slab) (bx slab) (5 / 4) = 1 / 4"
  "wrap_axis (yperiodic slab) (ay slab) (by' slab) (1 / 2) = 1 / 2"
  "wrap_axis (zperiodic slab) (az slab) (bz slab) (1 / 2) = 1 / 2"
  by (simp_all add: wrap_axis_def slab_def)

theorem point_inside_conjunction_witness:
  "point_inside_container slab (5 / 4) (1 / 2) (1 / 2) \<and>
   \<not> point_inside_container slab (3 / 4) (1 / 2) (1 / 2) \<and>
   \<not> point_inside_container slab (1 / 4) (3 / 2) (1 / 2) \<and>
   \<not> point_inside_walls [x_wall 1, x_wall (1 / 2)] (3 / 4) 0 0"
proof -
  have a: "point_inside_container slab (5 / 4) (1 / 2) (1 / 2)"
    using point_inside_conjunction [of slab "5 / 4" "1 / 2" "1 / 2" "[]"]
    unfolding Let_def slab_wrap by (simp add: slab_def x_wall_def)
  have b: "\<not> point_inside_container slab (3 / 4) (1 / 2) (1 / 2)"
    by (simp add: point_inside_container_def wrap_axis_def slab_def x_wall_def)
  have c: "\<not> point_inside_container slab (1 / 4) (3 / 2) (1 / 2)"
    by (simp add: point_inside_container_def wrap_axis_def slab_def x_wall_def)
  have d: "\<not> point_inside_walls [x_wall 1, x_wall (1 / 2)] (3 / 4) 0 0"
    by (simp add: x_wall_def)
  from a b c d show ?thesis by simp
qed

section \<open>Insertion and clearing\<close>

lemma put_remap_outside: "outside_domain con x y z \<Longrightarrow> put_remap con x y z = Inl DomainError"
  by (auto simp: put_remap_def outside_domain_def)

text \<open>
  C7. A point that on some non-periodic axis lies outside \<open>[a, b]\<close> is rejected by \<open>put\<close>,
  with or without a radius: the result is the domain error, and no container with the
  particle stored.
\<close>

theorem put_domain_error:
  "(outside_domain con x y z \<longrightarrow> put max_particle_memory con n x y z = Inl DomainError) \<and>
   (outside_domain pcon x y z \<longrightarrow> put_poly max_particle_memory pcon n x y z r = Inl DomainError)"
  by (simp add: put_def put_poly_def put_locate_block_def put_remap_outside)

text \<open>
  The point \<open>(1.1, 0.5, 0.5)\<close> and the non-periodic unit cube; the point \<open>(0, 6, 0)\<close> and
  the weighted container \<open>[-5, 5]\<^sup>3\<close>.
\<close>

theorem put_domain_error_witness:
  "outside_domain unit_cube (11 / 10) (1 / 2) (1 / 2) \<and>
   put 16777216 unit_cube 0 (11 / 10) (1 / 2) (1 / 2) = Inl DomainError \<and>
   outside_domain two_spheres 0 6 0 \<and> put_poly 16777216 two_spheres 3 0 6 0 1 = Inl DomainError"
proof -
  have a: "outside_domain unit_cube (11 / 10) (1 / 2) (1 / 2)"
    by (simp add: outside_domain_def unit_cube_def)
  have b: "outside_domain two_spheres 0 6 0"
    by (simp add: outside_domain_def two_spheres_def)
  from put_domain_error [where con = unit_cube and x = "11 / 10" and y = "1 / 2" and z = "1 / 2"
      and max_particle_memory = 16777216 and n = 0 and pcon = two_spheres and r = 1]
    put_domain_error [where pcon = two_spheres and x = 0 and y = 6 and z = 0
      and max_particle_memory = 16777216 and n = 3 and r = 1 and con = unit_cube] a b
  show ?thesis by simp
qed

lemma put_locate_block_mono:
  assumes "put_locate_block max_particle_memory con x y z = Inr (con1, ijk, x1, y1, z1)"
    and "capacities_ok con"
  shows "co con1 = co con" "length (mem con1) = length (mem con)"
    "\<forall>i<length (mem con). mem con ! i \<le> mem con1 ! i"
proof -
  have "co con1 = co con \<and> length (mem con1) = length (mem con) \<and>
        (\<forall>i<length (mem con). mem con ! i \<le> mem con1 ! i)"
  proof (cases "co con ! nat ijk = mem con ! nat ijk")
    case False
    with assms(1) have "con1 = con"
      by (auto simp: put_locate_block_def split: sum.splits if_splits)
    then show ?thesis by simp
  next
    case True
    with assms(1) have grow: "add_particle_memory max_particle_memory con ijk = Inr con1"
      by (auto simp: put_locate_block_def split: sum.splits if_splits)
    then have m: "mem con1 = (mem con)[nat ijk := 2 * (mem con ! nat ijk)]" and c: "co con1 = co con"
      by (auto simp: add_particle_memory_def Let_def split: if_splits)
    have "mem con ! i \<le> mem con1 ! i" if "i < length (mem con)" for i
    proof -
      from assms(2) that have "0 \<le> mem con ! i" by (simp add: capacities_ok_def list_all_length)
      then show ?thesis unfolding m using that by (cases "i = nat ijk") simp_all
    qed
    with m c show ?thesis by simp
  qed
  then show "co con1 = co con" "length (mem con1) = length (mem con)"
    "\<forall>i<length (mem con). mem con ! i \<le> mem con1 ! i"
    by simp_all
qed

lemma list_update_incr:
  fixes xs :: "int list"
  shows "i < length xs \<Longrightarrow> xs ! i \<le> xs[b := xs ! b + 1] ! i"
  by (cases "i = b") simp_all

lemma put_mono:
  assumes "put max_particle_memory con n x y z = Inr con'"
    and "capacities_ok con"
  shows "never_decreased con con'"
proof -
  from assms(1) obtain con1 ijk x1 y1 z1
    where loc: "put_locate_block max_particle_memory con x y z = Inr (con1, ijk, x1, y1, z1)"
      and c: "co con' = (co con1)[nat ijk := co con1 ! nat ijk + 1]"
      and m: "mem con' = mem con1"
    by (auto simp: put_def Let_def split: sum.splits)
  note l = put_locate_block_mono [OF loc assms(2)]
  show ?thesis unfolding never_decreased_def c m l(1) using l(2,3) by (simp add: list_update_incr)
qed

lemma put_poly_mono:
  assumes "put_poly max_particle_memory con n x y z r = Inr con'"
    and "capacities_ok con"
  shows "never_decreased con con'"
proof -
  from assms(1) obtain con1 ijk x1 y1 z1
    where loc: "put_locate_block max_particle_memory con x y z = Inr (con1, ijk, x1, y1, z1)"
      and c: "co con' = (co con1)[nat ijk := co con1 ! nat ijk + 1]"
      and m: "mem con' = mem con1"
    by (auto simp: put_poly_def Let_def split: sum.splits)
  note l = put_locate_block_mono [OF loc assms(2)]
  show ?thesis unfolding never_decreased_def c m l(1) using l(2,3) by (simp add: list_update_incr)
qed

lemma clear_frame:
  "length (co (clear con)) = length (co con)" "\<forall>i<length (co con). co (clear con) ! i = 0"
  "mem (clear con) = mem con" "id' (clear con) = id' con" "p (clear con) = p con"
  "walls (clear con) = walls con" "(clear con)\<lparr>co := co con\<rparr> = con"
  by (simp_all add: clear_def)

lemma unit_cube_puts:
  "put 16777216 unit_cube 5 (3 / 4) (1 / 2) (1 / 2) = Inr unit_cube1"
  "put 16777216 unit_cube1 6 1 1 1 = Inr unit_cube2"
  by (simp_all add: put_def put_locate_block_def put_remap_def wrap_axis_def axis_box_def
      add_particle_memory_def unit_cube_def unit_cube1_def unit_cube2_def Let_def eval_nat_numeral)

text \<open>
  C8. \<open>clear\<close> sets the count of every box to \<open>0\<close> and changes nothing else: the
  capacities, the id and position storage and the walls are as before, and putting the
  old counts back gives the old container, so the geometry and every other field are
  untouched. A successful \<open>put\<close>, with or without a radius, into a container whose
  capacities are not negative decreases no count and no capacity.
\<close>

theorem clear_and_growth:
  "length (co (clear con)) = length (co con) \<and> (\<forall>i<length (co con). co (clear con) ! i = 0) \<and>
   mem (clear con) = mem con \<and> id' (clear con) = id' con \<and> p (clear con) = p con \<and>
   walls (clear con) = walls con \<and> (clear con)\<lparr>co := co con\<rparr> = con \<and>
   (capacities_ok con \<and> put max_particle_memory con n x y z = Inr con' \<longrightarrow>
      never_decreased con con') \<and>
   (capacities_ok pcon \<and> put_poly max_particle_memory pcon n x y z r = Inr pcon' \<longrightarrow>
      never_decreased pcon pcon')"
  using clear_frame [of con] put_mono [of max_particle_memory con n x y z con']
    put_poly_mono [of max_particle_memory pcon n x y z r pcon']
  by blast

text \<open>
  Two particles go into the second box of the unit cube, whose capacity doubles from
  \<open>1\<close> to \<open>2\<close> for the second; clearing then leaves the counts \<open>[0, 0]\<close> and the
  capacities \<open>[1, 2]\<close>.
\<close>

theorem clear_and_growth_witness:
  "capacities_ok unit_cube1 \<and> put 16777216 unit_cube1 6 1 1 1 = Inr unit_cube2 \<and>
   never_decreased unit_cube1 unit_cube2 \<and>
   co unit_cube1 = [0, 1] \<and> mem unit_cube1 = [1, 1] \<and>
   co unit_cube2 = [0, 2] \<and> mem unit_cube2 = [1, 2] \<and>
   co (clear unit_cube2) = [0, 0] \<and> mem (clear unit_cube2) = [1, 2]"
proof -
  have ok: "capacities_ok unit_cube1"
    by (simp add: capacities_ok_def unit_cube1_def unit_cube_def)
  have v: "co unit_cube1 = [0, 1]" "mem unit_cube1 = [1, 1]"
    "co unit_cube2 = [0, 2]" "mem unit_cube2 = [1, 2]"
    by (simp_all add: unit_cube1_def unit_cube2_def unit_cube_def)
  have c: "co (clear unit_cube2) = [0, 0]" by (simp add: clear_def v)
  from clear_and_growth [where con = unit_cube1 and con' = unit_cube2 and n = 6 and x = 1
      and y = 1 and z = 1 and max_particle_memory = 16777216] ok unit_cube_puts(2)
  have "never_decreased unit_cube1 unit_cube2" by blast
  moreover from clear_and_growth [where con = unit_cube2, THEN conjunct2, THEN conjunct2,
      THEN conjunct1]
  have "mem (clear unit_cube2) = [1, 2]" by (simp add: v)
  ultimately show ?thesis using ok unit_cube_puts(2) v c by simp
qed

end
